theory Spec2Isabelle
  imports Complex_Main "HOL-Library.Monad_Syntax" "HOL-Library.Signed_Division" "HOL-Library.Word"
begin

section \<open>TextFlow: a shallow embedding of the editor's engines\<close>

text \<open>
  The C++ sources are embedded function by function. C++ \<open>int\<close> and \<open>long long\<close> are
  HOL \<open>int\<close> (no arithmetic of the embedded functions leaves the 64-bit range on
  the inputs considered, and sizes are assumed to stay below \<open>2^31\<close>);
  \<open>std::string\<close> is \<open>string\<close>, a list of 8-bit characters. A read that the C++
  standard leaves undefined (an index beyond the end, a null pointer), an exception that
  nothing catches and a loop that does not come back are the value \<open>None\<close> of the
  option monad.
\<close>

subsection \<open>Machine integers\<close>

text \<open>
  Where an \<open>int\<close> argument of the caller enters a sum or a difference, the result can
  leave the 32-bit range however small the document is. There the model writes out what
  the x86-64 target computes, the two's complement wrap-around: \<open>int32 v\<close> is the
  \<open>int\<close> that the exact value \<open>v\<close> becomes.
\<close>

definition int32 :: "int \<Rightarrow> int" where
  "int32 v = (v + 2147483648) mod 4294967296 - 2147483648"

subsection \<open>Strings and vectors\<close>

text \<open>\<open>s[i]\<close> on a \<open>std::string\<close>: the character, or NUL at \<open>i = s.size()\<close>.\<close>

definition str_at :: "string \<Rightarrow> int \<Rightarrow> char option" where
  "str_at s i = (if 0 \<le> i \<and> i < int (length s) then Some (s ! nat i)
                 else if i = int (length s) then Some (CHR 0x00) else None)"

definition vec_at :: "'a list \<Rightarrow> int \<Rightarrow> 'a option" where
  "vec_at v i = (if 0 \<le> i \<and> i < int (length v) then Some (v ! nat i) else None)"

definition vec_set :: "'a list \<Rightarrow> int \<Rightarrow> 'a \<Rightarrow> 'a list option" where
  "vec_set v i x = (if 0 \<le> i \<and> i < int (length v) then Some (v[nat i := x]) else None)"

text \<open>The value of a \<open>char\<close> in arithmetic: \<open>char\<close> is signed on the Linux x86-64 target.\<close>

definition char_val :: "char \<Rightarrow> int" where
  "char_val c = (let n = of_char c :: int in if n < 128 then n else n - 256)"

text \<open>\<open>std::string::substr(pos, n)\<close> and \<open>substr(pos)\<close> for \<open>0 \<le> pos \<le> size\<close>.\<close>

definition substr :: "string \<Rightarrow> nat \<Rightarrow> nat \<Rightarrow> string" where
  "substr s pos n = take n (drop pos s)"

subsection \<open>Search engine (search\_replace.cpp)\<close>

partial_function (option) lps_loop :: "string \<Rightarrow> int list \<Rightarrow> int \<Rightarrow> int \<Rightarrow> int list option" where
  "lps_loop pattern lps len i =
     (if i < int (length pattern) then
        do { ci \<leftarrow> str_at pattern i;
             cl \<leftarrow> str_at pattern len;
             if ci = cl then
               do { lps' \<leftarrow> vec_set lps i (len + 1); lps_loop pattern lps' (len + 1) (i + 1) }
             else if len \<noteq> 0 then
               do { l' \<leftarrow> vec_at lps (len - 1); lps_loop pattern lps l' i }
             else
               do { lps' \<leftarrow> vec_set lps i 0; lps_loop pattern lps' len (i + 1) } }
      else Some lps)"

declare lps_loop.simps [code]

definition computeLPSArray :: "string \<Rightarrow> int list option" where
  "computeLPSArray pattern = lps_loop pattern (replicate (length pattern) 0) 0 1"

text \<open>
  The body of \<open>kmpSearch\<close>'s \<open>while (i < textLen)\<close>: the first \<open>if\<close> advances both
  indices, the second either reports a match or falls back through the table.
\<close>

partial_function (option) kmp_loop ::
  "string \<Rightarrow> string \<Rightarrow> int list \<Rightarrow> int \<Rightarrow> int \<Rightarrow> int list \<Rightarrow> int list option" where
  "kmp_loop text pattern lps i j result =
     (if i < int (length text) then
        do { pj \<leftarrow> str_at pattern j;
             ti \<leftarrow> str_at text i;
             let (i1, j1) = (if pj = ti then (i + 1, j + 1) else (i, j));
             if j1 = int (length pattern) then
               do { l \<leftarrow> vec_at lps (j1 - 1); kmp_loop text pattern lps i1 l (result @ [i1 - j1]) }
             else if i1 < int (length text) then
               do { pj1 \<leftarrow> str_at pattern j1;
                    ti1 \<leftarrow> str_at text i1;
                    if pj1 \<noteq> ti1 then
                      (if j1 \<noteq> 0 then
                         do { l \<leftarrow> vec_at lps (j1 - 1); kmp_loop text pattern lps i1 l result }
                       else kmp_loop text pattern lps (i1 + 1) j1 result)
                    else kmp_loop text pattern lps i1 j1 result }
             else kmp_loop text pattern lps i1 j1 result }
      else Some result)"

declare kmp_loop.simps [code]

definition kmpSearch :: "string \<Rightarrow> string \<Rightarrow> int list option" where
  "kmpSearch text pattern =
     (if pattern = [] \<or> length text < length pattern then Some []
      else do { lps \<leftarrow> computeLPSArray pattern; kmp_loop text pattern lps 0 0 [] })"

text \<open>
  \<open>buildBadCharTable\<close>: an \<open>unordered_map<char,int>\<close>; \<open>operator[]\<close> on a missing key
  yields 0, so the table is a total function with default 0. The last pattern character
  is left out (\<open>i < patternLen - 1\<close>).
\<close>

definition buildBadCharTable :: "string \<Rightarrow> char \<Rightarrow> int" where
  "buildBadCharTable pattern =
     fold (\<lambda>i table. table(pattern ! i := int (length pattern) - 1 - int i))
          [0 ..< length pattern - 1] (\<lambda>_. 0)"

definition buildGoodSuffixTable :: "string \<Rightarrow> int list" where
  "buildGoodSuffixTable pattern = replicate (length pattern) (int (length pattern))"

text \<open>The inner \<open>while (j >= 0 && pattern[j] == text[shift + j]) j--\<close>.\<close>

function bm_scan :: "string \<Rightarrow> string \<Rightarrow> int \<Rightarrow> int \<Rightarrow> int option" where
  "bm_scan text pattern shift j =
     (if j \<ge> 0 then
        (case (str_at pattern j, str_at text (shift + j)) of
           (Some a, Some b) \<Rightarrow> if a = b then bm_scan text pattern shift (j - 1) else Some j
         | _ \<Rightarrow> None)
      else Some j)"
  by pat_completeness auto
termination
  by (relation "measure (\<lambda>(text, pattern, shift, j). nat (j + 1))") auto

partial_function (option) bm_loop ::
  "string \<Rightarrow> string \<Rightarrow> (char \<Rightarrow> int) \<Rightarrow> int list \<Rightarrow> int \<Rightarrow> int list \<Rightarrow> int list option" where
  "bm_loop text pattern badCharTable goodSuffixTable shift result =
     (let textLen = int (length text); patternLen = int (length pattern) in
      if shift \<le> textLen - patternLen then
        do { j \<leftarrow> bm_scan text pattern shift (patternLen - 1);
             if j < 0 then
               (if shift + patternLen < textLen then
                  do { c \<leftarrow> str_at text (shift + patternLen);
                       bm_loop text pattern badCharTable goodSuffixTable
                         (shift + (patternLen - badCharTable c)) (result @ [shift]) }
                else bm_loop text pattern badCharTable goodSuffixTable (shift + 1) (result @ [shift]))
             else
               do { c \<leftarrow> str_at text (shift + j);
                    g \<leftarrow> vec_at goodSuffixTable j;
                    bm_loop text pattern badCharTable goodSuffixTable
                      (shift + max g (j - badCharTable c)) result } }
      else Some result)"

declare bm_loop.simps [code]

definition boyerMooreSearch :: "string \<Rightarrow> string \<Rightarrow> int list option" where
  "boyerMooreSearch text pattern =
     (if pattern = [] \<or> length text < length pattern then Some []
      else bm_loop text pattern (buildBadCharTable pattern) (buildGoodSuffixTable pattern) 0 [])"

text \<open>
  \<open>computeHash\<close> walks the window from its last character to its first; \<open>%\<close> on
  \<open>long long\<close> truncates towards zero (\<open>smod\<close>).
\<close>

fun hash_loop :: "string \<Rightarrow> int \<Rightarrow> int \<Rightarrow> int \<Rightarrow> int \<Rightarrow> nat \<Rightarrow> int option" where
  "hash_loop str base md hash pw 0 = Some hash"
| "hash_loop str base md hash pw (Suc k) =
     do { c \<leftarrow> str_at str (int k);
          hash_loop str base md ((hash + (char_val c * pw) smod md) smod md)
            ((pw * base) smod md) k }"

text \<open>
  The callers only pass \<open>start = 0\<close>; the loop index \<open>i\<close> runs from
  \<open>start + length - 1\<close> down to \<open>start\<close>, here as the count of characters left.
\<close>

definition computeHash :: "string \<Rightarrow> int \<Rightarrow> int \<Rightarrow> int \<Rightarrow> int \<Rightarrow> int option" where
  "computeHash str start len base md =
     (if start = 0 \<and> 0 \<le> len then hash_loop str base md 0 1 (nat len) else None)"

function power_loop :: "int \<Rightarrow> int \<Rightarrow> int \<Rightarrow> int \<Rightarrow> int" where
  "power_loop base e md result =
     (if e > 0 then
        power_loop ((base * base) smod md) (e div 2) md
          (if e smod 2 = 1 then (result * base) smod md else result)
      else result)"
  by pat_completeness auto
termination
  by (relation "measure (\<lambda>(base, e, md, result). nat e)") auto

definition computePower :: "int \<Rightarrow> int \<Rightarrow> int \<Rightarrow> int" where
  "computePower base e md = power_loop (base smod md) e md 1"

text \<open>The verification loop \<open>for (j = 0; j < patternLen; j++)\<close> with its \<open>break\<close>.\<close>

function rk_verify :: "string \<Rightarrow> string \<Rightarrow> int \<Rightarrow> int \<Rightarrow> bool option" where
  "rk_verify text pattern i j =
     (if j < int (length pattern) then
        (case (str_at text (i + j), str_at pattern j) of
           (Some a, Some b) \<Rightarrow> if a \<noteq> b then Some False else rk_verify text pattern i (j + 1)
         | _ \<Rightarrow> None)
      else Some True)"
  by pat_completeness auto
termination
  by (relation "measure (\<lambda>(text, pattern, i, j). nat (int (length pattern) - j))") auto

function rk_loop ::
  "string \<Rightarrow> string \<Rightarrow> int \<Rightarrow> int \<Rightarrow> int \<Rightarrow> int \<Rightarrow> int \<Rightarrow> int \<Rightarrow> int list \<Rightarrow> int list option" where
  "rk_loop text pattern base md patternHash pw textHash i result =
     (let textLen = int (length text); patternLen = int (length pattern) in
      if i \<le> textLen - patternLen then
        (case (if patternHash = textHash then rk_verify text pattern i 0 else Some False) of
           None \<Rightarrow> None
         | Some m \<Rightarrow>
             let result' = (if m then result @ [i] else result) in
             if i < textLen - patternLen then
               (case (str_at text i, str_at text (i + patternLen)) of
                  (Some a, Some b) \<Rightarrow>
                    let h = (base * (textHash - char_val a * pw) + char_val b) smod md;
                        h' = (if h < 0 then h + md else h)
                    in rk_loop text pattern base md patternHash pw h' (i + 1) result'
                | _ \<Rightarrow> None)
             else rk_loop text pattern base md patternHash pw textHash (i + 1) result')
      else Some result)"
  by pat_completeness auto
termination
  by (relation "measure (\<lambda>(text, pattern, base, md, patternHash, pw, textHash, i, result).
                  nat (int (length text) - int (length pattern) + 1 - i))") auto

definition rabinKarpSearch :: "string \<Rightarrow> string \<Rightarrow> int list option" where
  "rabinKarpSearch text pattern =
     (if pattern = [] \<or> length text < length pattern then Some []
      else
        do { let base = 256; let md = 1000000007;
             let patternLen = int (length pattern);
             patternHash \<leftarrow> computeHash pattern 0 patternLen base md;
             textHash \<leftarrow> computeHash text 0 patternLen base md;
             let pw = computePower base (patternLen - 1) md;
             rk_loop text pattern base md patternHash pw textHash 0 [] })"

subsection \<open>Compression engine (compression.cpp)\<close>

text \<open>
  A \<open>HuffmanNode\<close> is built by one of two constructors: a leaf with a character and a
  frequency (both children null), or a merged node with a frequency and two children.
\<close>

datatype HuffmanNode = HLeaf char int | HMerged int HuffmanNode HuffmanNode

fun frequency :: "HuffmanNode \<Rightarrow> int" where
  "frequency (HLeaf c f) = f"
| "frequency (HMerged f l r) = f"

fun isLeaf :: "HuffmanNode \<Rightarrow> bool" where
  "isLeaf (HLeaf c f) = True"
| "isLeaf (HMerged f l r) = False"

text \<open>\<open>node->left\<close> and \<open>node->right\<close>: null (\<open>None\<close>) below a leaf.\<close>

fun hleft :: "HuffmanNode \<Rightarrow> HuffmanNode option" where
  "hleft (HLeaf c f) = None"
| "hleft (HMerged f l r) = Some l"

fun hright :: "HuffmanNode \<Rightarrow> HuffmanNode option" where
  "hright (HLeaf c f) = None"
| "hright (HMerged f l r) = Some r"

record HuffmanCompression =
  frequencyTable :: "(char \<times> int) list"
  huffmanCodes :: "char \<rightharpoonup> string"
  hroot :: "HuffmanNode option"

text \<open>
  \<open>frequencyTable_[c]++\<close>. The table is an \<open>unordered_map\<close>, whose iteration order the
  standard leaves open; the model keeps the keys in the order of their first occurrence.
\<close>

fun bump :: "char \<Rightarrow> (char \<times> int) list \<Rightarrow> (char \<times> int) list" where
  "bump c [] = [(c, 1)]"
| "bump c ((k, n) # rest) = (if k = c then (k, n + 1) # rest else (k, n) # bump c rest)"

definition buildFrequencyTable :: "string \<Rightarrow> (char \<times> int) list" where
  "buildFrequencyTable text = fold bump text []"

text \<open>
  The priority queue orders nodes by frequency, smallest on top. Which of several nodes of
  equal frequency is on top is left to the library; the model takes the oldest.
\<close>

fun pq_pop :: "HuffmanNode list \<Rightarrow> (HuffmanNode \<times> HuffmanNode list) option" where
  "pq_pop [] = None"
| "pq_pop (x # xs) =
     (case pq_pop xs of
        None \<Rightarrow> Some (x, [])
      | Some (m, rest) \<Rightarrow>
          if frequency x \<le> frequency m then Some (x, xs) else Some (m, x # rest))"

lemma pq_pop_None: "pq_pop pq = None \<longleftrightarrow> pq = []"
  by (cases pq) (auto split: option.splits)

lemma pq_pop_length: "pq_pop pq = Some (m, rest) \<Longrightarrow> Suc (length rest) = length pq"
  by (induction pq arbitrary: m rest) (auto simp: pq_pop_None split: option.splits if_splits)

function build_loop :: "HuffmanNode list \<Rightarrow> HuffmanNode list" where
  "build_loop pq =
     (if length pq > 1 then
        (case pq_pop pq of
           None \<Rightarrow> pq
         | Some (l, pq1) \<Rightarrow>
             (case pq_pop pq1 of
                None \<Rightarrow> pq
              | Some (r, pq2) \<Rightarrow> build_loop (pq2 @ [HMerged (frequency l + frequency r) l r])))
      else pq)"
  by pat_completeness auto
termination
proof (relation "measure length", goal_cases)
  case 1
  show ?case by simp
next
  case (2 pq x2 l pq1 x2a r pq2)
  then show ?case
    using pq_pop_length [of pq l pq1] pq_pop_length [of pq1 r pq2] by simp
qed

definition buildHuffmanTree :: "(char \<times> int) list \<Rightarrow> HuffmanNode option" where
  "buildHuffmanTree table =
     (case pq_pop (build_loop (map (\<lambda>(c, f). HLeaf c f) table)) of
        None \<Rightarrow> None
      | Some (node, rest) \<Rightarrow> Some node)"

fun generateCodesHelper :: "HuffmanNode \<Rightarrow> string \<Rightarrow> (char \<rightharpoonup> string) \<Rightarrow> (char \<rightharpoonup> string)" where
  "generateCodesHelper (HLeaf c f) code codes = codes(c \<mapsto> code)"
| "generateCodesHelper (HMerged f l r) code codes =
     generateCodesHelper r (code @ ''1'') (generateCodesHelper l (code @ ''0'') codes)"

definition generateHuffmanCodes :: "HuffmanNode option \<Rightarrow> (char \<rightharpoonup> string)" where
  "generateHuffmanCodes rt =
     (case rt of
        None \<Rightarrow> Map.empty
      | Some (HLeaf c f) \<Rightarrow> [c \<mapsto> ''0'']
      | Some n \<Rightarrow> generateCodesHelper n [] Map.empty)"

text \<open>\<open>writeBits\<close>: eight bits to a byte, most significant first, the last byte padded with zeros.\<close>

fun writeBits_loop :: "string \<Rightarrow> 8 word \<Rightarrow> nat \<Rightarrow> 8 word list \<Rightarrow> 8 word list" where
  "writeBits_loop [] currentByte bitCount data =
     (if bitCount > 0 then data @ [currentByte] else data)"
| "writeBits_loop (b # bits) currentByte bitCount data =
     (let currentByte' = (if b = CHR ''1'' then or currentByte (push_bit (7 - bitCount) 1) else currentByte);
          bitCount' = bitCount + 1
      in if bitCount' = 8 then writeBits_loop bits 0 0 (data @ [currentByte'])
         else writeBits_loop bits currentByte' bitCount' data)"

definition writeBits :: "8 word list \<Rightarrow> string \<Rightarrow> 8 word list" where
  "writeBits data bits = writeBits_loop bits 0 0 data"

definition encodeText :: "(char \<rightharpoonup> string) \<Rightarrow> string \<Rightarrow> 8 word list" where
  "encodeText codes text =
     writeBits [] (concat (map (\<lambda>c. case codes c of None \<Rightarrow> [] | Some code \<Rightarrow> code) text))"

definition serializeTree :: "8 word list \<Rightarrow> 8 word list" where
  "serializeTree data = data @ [0xFF]"

text \<open>\<open>compress\<close> returns the bytes and leaves the tree and the codes in the engine.\<close>

definition huffman_compress :: "HuffmanCompression \<Rightarrow> string \<Rightarrow> 8 word list \<times> HuffmanCompression" where
  "huffman_compress h text =
     (if text = [] then ([], h)
      else
        let table = buildFrequencyTable text;
            rt = buildHuffmanTree table;
            codes = generateHuffmanCodes rt
        in (serializeTree [] @ encodeText codes text,
            \<lparr>frequencyTable = table, huffmanCodes = codes, hroot = rt\<rparr>))"

text \<open>
  \<open>decodeText\<close>: one step per bit. \<open>current\<close> is a pointer; stepping from a null pointer
  is undefined behaviour, stepping from a leaf gives the null pointer.
\<close>

fun decode_bits :: "HuffmanNode \<Rightarrow> bool list \<Rightarrow> HuffmanNode option \<Rightarrow> string \<Rightarrow> string option" where
  "decode_bits rt [] current result = Some result"
| "decode_bits rt (bitValue # bits) current result =
     (case current of
        None \<Rightarrow> None
      | Some cur \<Rightarrow>
          let next = (if bitValue then hright cur else hleft cur) in
          (case next of
             Some (HLeaf c f) \<Rightarrow> decode_bits rt bits (Some rt) (result @ [c])
           | _ \<Rightarrow> decode_bits rt bits next result))"

definition byte_bits :: "8 word \<Rightarrow> bool list" where
  "byte_bits w = map (\<lambda>b. bit w b) [7, 6, 5, 4, 3, 2, 1, 0]"

definition decodeText :: "HuffmanCompression \<Rightarrow> 8 word list \<Rightarrow> string option" where
  "decodeText h encodedData =
     (case hroot h of
        None \<Rightarrow> Some []
      | Some rt \<Rightarrow>
          let treeStart = length (takeWhile (\<lambda>b. b \<noteq> 0xFF) encodedData) + 1
          in decode_bits rt (concat (map byte_bits (drop treeStart encodedData))) (Some rt) [])"

definition huffman_decompress :: "HuffmanCompression \<Rightarrow> 8 word list \<Rightarrow> string option" where
  "huffman_decompress h compressedData =
     (if compressedData = [] then Some [] else decodeText h compressedData)"

text \<open>LZ77: a token is (offset, length, next character).\<close>

record LZ77Token =
  offset :: int
  len :: int
  nextChar :: char

record LZ77Compression =
  windowSize :: int
  bufferSize :: int

definition lz77_default :: LZ77Compression where
  "lz77_default = \<lparr>windowSize = 32768, bufferSize = 258\<rparr>"

function match_length :: "string \<Rightarrow> int \<Rightarrow> int \<Rightarrow> int \<Rightarrow> int \<Rightarrow> int" where
  "match_length text currentPos maxLength i l =
     (if l < maxLength \<and> i + l < currentPos \<and> currentPos + l < int (length text)
         \<and> 0 \<le> i + l \<and> text ! nat (i + l) = text ! nat (currentPos + l)
      then match_length text currentPos maxLength i (l + 1) else l)"
  by pat_completeness auto
termination
  by (relation "measure (\<lambda>(text, currentPos, maxLength, i, l). nat (maxLength - l))") auto

function match_loop :: "string \<Rightarrow> int \<Rightarrow> int \<Rightarrow> int \<Rightarrow> int \<Rightarrow> int \<Rightarrow> int \<Rightarrow> int \<times> int" where
  "match_loop text currentPos maxLength searchEnd i bestOffset bestLength =
     (if i < searchEnd then
        let l = match_length text currentPos maxLength i 0 in
        if l > bestLength then match_loop text currentPos maxLength searchEnd (i + 1) (currentPos - i) l
        else match_loop text currentPos maxLength searchEnd (i + 1) bestOffset bestLength
      else (bestOffset, bestLength))"
  by pat_completeness auto
termination
  by (relation "measure (\<lambda>(text, currentPos, maxLength, searchEnd, i, bo, bl). nat (searchEnd - i))") auto

definition findLongestMatch :: "LZ77Compression \<Rightarrow> string \<Rightarrow> int \<Rightarrow> int \<times> int" where
  "findLongestMatch z text currentPos =
     (let searchStart = max 0 (currentPos - windowSize z);
          searchEnd = currentPos;
          maxLength = min (bufferSize z) (int (length text) - currentPos)
      in match_loop text currentPos maxLength searchEnd searchStart 0 0)"

partial_function (option) encode_loop ::
  "LZ77Compression \<Rightarrow> string \<Rightarrow> int \<Rightarrow> LZ77Token list \<Rightarrow> LZ77Token list option" where
  "encode_loop z text pos tokens =
     (if pos < int (length text) then
        (case findLongestMatch z text pos of
           (mo, ml) \<Rightarrow>
             if mo > 0 \<and> ml > 0 then
               do { c \<leftarrow> str_at text (pos + ml);
                    encode_loop z text (pos + ml + 1)
                      (tokens @ [\<lparr>offset = mo, len = ml, nextChar = c\<rparr>]) }
             else
               do { c \<leftarrow> str_at text pos;
                    encode_loop z text (pos + 1) (tokens @ [\<lparr>offset = 0, len = 0, nextChar = c\<rparr>]) })
      else Some tokens)"

declare encode_loop.simps [code]

definition lz77_encode :: "LZ77Compression \<Rightarrow> string \<Rightarrow> LZ77Token list option" where
  "lz77_encode z text = encode_loop z text 0 []"

text \<open>The copy loop of \<open>decode\<close>: \<open>result += result[start + i]\<close> for \<open>i < length\<close>.\<close>

function copy_loop :: "string \<Rightarrow> int \<Rightarrow> int \<Rightarrow> int \<Rightarrow> string option" where
  "copy_loop result start n i =
     (if i < n then
        (case str_at result (start + i) of
           None \<Rightarrow> None
         | Some c \<Rightarrow> copy_loop (result @ [c]) start n (i + 1))
      else Some result)"
  by pat_completeness auto
termination
  by (relation "measure (\<lambda>(result, start, n, i). nat (n - i))") auto

fun lz77_decode :: "LZ77Token list \<Rightarrow> string \<Rightarrow> string option" where
  "lz77_decode [] result = Some result"
| "lz77_decode (token # tokens) result =
     (if offset token = 0 then lz77_decode tokens (result @ [nextChar token])
      else
        (case copy_loop result (int (length result) - offset token) (len token) 0 of
           None \<Rightarrow> None
         | Some result' \<Rightarrow> lz77_decode tokens (result' @ [nextChar token])))"

definition serializeTokens :: "LZ77Token list \<Rightarrow> 8 word list" where
  "serializeTokens tokens =
     concat (map (\<lambda>token.
       [word_of_int ((offset token div 256) mod 256),
        word_of_int (offset token mod 256),
        word_of_int (len token mod 256),
        word_of_nat (of_char (nextChar token))]) tokens)"

fun deserializeTokens :: "8 word list \<Rightarrow> LZ77Token list" where
  "deserializeTokens (b0 # b1 # b2 # b3 # data) =
     \<lparr>offset = uint b0 * 256 + uint b1, len = uint b2, nextChar = char_of (unat b3)\<rparr>
       # deserializeTokens data"
| "deserializeTokens data = []"

definition lz77_compress :: "LZ77Compression \<Rightarrow> string \<Rightarrow> 8 word list option" where
  "lz77_compress z text =
     (if text = [] then Some [] else map_option serializeTokens (lz77_encode z text))"

definition lz77_decompress :: "LZ77Compression \<Rightarrow> 8 word list \<Rightarrow> string option" where
  "lz77_decompress z compressedData =
     (if compressedData = [] then Some [] else lz77_decode (deserializeTokens compressedData) [])"


subsection \<open>Password strength (encryption.cpp)\<close>

text \<open>
  The \<open><cctype>\<close> classification in the default "C" locale: only ASCII letters and
  digits are alphanumeric, and a byte from 0x80 on is in none of the classes.
\<close>

definition islower :: "char \<Rightarrow> bool" where
  "islower c = (let n = of_char c :: nat in 97 \<le> n \<and> n \<le> 122)"

definition isupper :: "char \<Rightarrow> bool" where
  "isupper c = (let n = of_char c :: nat in 65 \<le> n \<and> n \<le> 90)"

definition isdigit :: "char \<Rightarrow> bool" where
  "isdigit c = (let n = of_char c :: nat in 48 \<le> n \<and> n \<le> 57)"

definition isalnum :: "char \<Rightarrow> bool" where
  "isalnum c = (islower c \<or> isupper c \<or> isdigit c)"

record PasswordStrength =
  score :: int
  feedback :: string
  isStrong :: bool

text \<open>The \<open>for (char c : password)\<close> loop with its \<open>else if\<close> chain over the four flags.\<close>

fun classify :: "string \<Rightarrow> bool \<times> bool \<times> bool \<times> bool \<Rightarrow> bool \<times> bool \<times> bool \<times> bool" where
  "classify [] flags = flags"
| "classify (c # cs) (hasLower, hasUpper, hasDigit, hasSpecial) =
     classify cs
       (if islower c then (True, hasUpper, hasDigit, hasSpecial)
        else if isupper c then (hasLower, True, hasDigit, hasSpecial)
        else if isdigit c then (hasLower, hasUpper, True, hasSpecial)
        else if \<not> isalnum c then (hasLower, hasUpper, hasDigit, True)
        else (hasLower, hasUpper, hasDigit, hasSpecial))"

definition checkPasswordStrength :: "string \<Rightarrow> PasswordStrength" where
  "checkPasswordStrength password =
     (let s0 = (0::int);
          s1 = (if length password \<ge> 8 then s0 + 1 else s0);
          s2 = (if length password \<ge> 12 then s1 + 1 else s1);
          s3 = (if length password \<ge> 16 then s2 + 1 else s2);
          (hasLower, hasUpper, hasDigit, hasSpecial) = classify password (False, False, False, False);
          s4 = (if hasLower then s3 + 1 else s3);
          s5 = (if hasUpper then s4 + 1 else s4);
          s6 = (if hasDigit then s5 + 1 else s5);
          s7 = (if hasSpecial then s6 + 1 else s6)
      in \<lparr>score = s7,
          feedback =
            (if s7 < 3 then ''Very weak password. Use at least 8 characters with mixed case, numbers, and symbols.''
             else if s7 < 5 then ''Weak password. Add more variety of characters.''
             else if s7 < 7 then ''Moderate password. Consider making it longer or adding more complexity.''
             else ''Strong password!''),
          isStrong = (s7 \<ge> 6)\<rparr>)"

subsection \<open>NLP client (nlp\_client.cpp)\<close>

text \<open>
  The client talks to an external service through libcurl and parses the answers with a
  JSON library; neither is part of the repository. The outcome of the \<open>try\<close> block of a
  capability call (\<open>makeRequest\<close>, \<open>parseResponse\<close> and the response parser) is
  therefore a parameter: \<open>Inl\<close> the \<open>std::exception\<close> it threw, \<open>Inr\<close> the response it
  built. The result of a call is \<open>Inr\<close> when it returns and \<open>Inl\<close> when an exception
  leaves it.
\<close>

datatype exn = StdException string

record NLPClient =
  baseUrl :: string
  connected :: bool

record GrammarResponse =
  corrected_text :: string
  errors :: "string list"
  suggestions :: "string list"

record SentimentResponse =
  sentiment :: string
  confidence :: real
  scores :: "(string \<times> real) list"
  breakdown :: "string list"

definition checkGrammar ::
  "NLPClient \<Rightarrow> (string \<Rightarrow> string \<Rightarrow> bool \<Rightarrow> exn + GrammarResponse) \<Rightarrow> string \<Rightarrow> string \<Rightarrow> bool
     \<Rightarrow> exn + GrammarResponse" where
  "checkGrammar client tryBlock text language autoCorrect =
     (if \<not> connected client then Inr \<lparr>corrected_text = [], errors = [], suggestions = []\<rparr>
      else
        (case tryBlock text language autoCorrect of
           Inr response \<Rightarrow> Inr response
         | Inl e \<Rightarrow> Inr \<lparr>corrected_text = [], errors = [], suggestions = []\<rparr>))"

definition correctGrammar ::
  "NLPClient \<Rightarrow> (string \<Rightarrow> string \<Rightarrow> exn + string) \<Rightarrow> string \<Rightarrow> string \<Rightarrow> exn + string" where
  "correctGrammar client tryBlock text language =
     (if \<not> connected client then Inr text
      else
        (case tryBlock text language of
           Inr corrected \<Rightarrow> Inr corrected
         | Inl e \<Rightarrow> Inr text))"

definition analyzeSentiment ::
  "NLPClient \<Rightarrow> (string \<Rightarrow> string \<Rightarrow> exn + SentimentResponse) \<Rightarrow> string \<Rightarrow> string
     \<Rightarrow> exn + SentimentResponse" where
  "analyzeSentiment client tryBlock text granularity =
     (if \<not> connected client
      then Inr \<lparr>sentiment = ''neutral'', confidence = 0.5, scores = [], breakdown = []\<rparr>
      else
        (case tryBlock text granularity of
           Inr response \<Rightarrow> Inr response
         | Inl e \<Rightarrow> Inr \<lparr>sentiment = ''neutral'', confidence = 0.5, scores = [], breakdown = []\<rparr>))"


subsection \<open>Storage tree (avl\_tree.h, avl\_tree.cpp)\<close>

text \<open>
  The nodes live on the heap and are reached through \<open>shared_ptr\<close>s; the tree mutates
  them in place, and the undo and redo stacks hold pointers to the same nodes. The model
  keeps an explicit store: a list of nodes, a pointer being \<open>None\<close> (null) or the index of
  a node. \<open>make_shared\<close> appends a node. Every function takes the store and returns the
  new one.
\<close>

record AVLNode =
  data :: string
  height :: int
  nsize :: int
  left :: "nat option"
  right :: "nat option"

type_synonym store = "AVLNode list"
type_synonym ptr = "nat option"

record AVLTree =
  heap :: store
  tree_root :: ptr
  undoStack :: "ptr list"
  redoStack :: "ptr list"

definition AVLTree_new :: AVLTree where
  "AVLTree_new = \<lparr>heap = [], tree_root = None, undoStack = [], redoStack = []\<rparr>"

definition deref :: "store \<Rightarrow> nat \<Rightarrow> AVLNode option" where
  "deref s p = (if p < length s then Some (s ! p) else None)"

definition make_shared :: "store \<Rightarrow> string \<Rightarrow> nat \<times> store" where
  "make_shared s d =
     (length s, s @ [\<lparr>data = d, height = 1, nsize = int (length d), left = None, right = None\<rparr>])"

definition getHeight :: "store \<Rightarrow> ptr \<Rightarrow> int option" where
  "getHeight s node = (case node of None \<Rightarrow> Some 0 | Some p \<Rightarrow> map_option height (deref s p))"

definition getSize_node :: "store \<Rightarrow> ptr \<Rightarrow> int option" where
  "getSize_node s node = (case node of None \<Rightarrow> Some 0 | Some p \<Rightarrow> map_option nsize (deref s p))"

definition getBalance :: "store \<Rightarrow> ptr \<Rightarrow> int option" where
  "getBalance s node =
     (case node of
        None \<Rightarrow> Some 0
      | Some p \<Rightarrow>
          do { nd \<leftarrow> deref s p;
               hl \<leftarrow> getHeight s (left nd);
               hr \<leftarrow> getHeight s (right nd);
               Some (hl - hr) })"

definition updateHeight :: "store \<Rightarrow> ptr \<Rightarrow> store option" where
  "updateHeight s node =
     (case node of
        None \<Rightarrow> Some s
      | Some p \<Rightarrow>
          do { nd \<leftarrow> deref s p;
               hl \<leftarrow> getHeight s (left nd);
               hr \<leftarrow> getHeight s (right nd);
               Some (s[p := nd\<lparr>height := 1 + max hl hr\<rparr>]) })"

definition updateSize :: "store \<Rightarrow> ptr \<Rightarrow> store option" where
  "updateSize s node =
     (case node of
        None \<Rightarrow> Some s
      | Some p \<Rightarrow>
          do { nd \<leftarrow> deref s p;
               sl \<leftarrow> getSize_node s (left nd);
               sr \<leftarrow> getSize_node s (right nd);
               Some (s[p := nd\<lparr>nsize := int (length (data nd)) + sl + sr\<rparr>]) })"

text \<open>Field assignments \<open>node->left = v\<close>, \<open>node->right = v\<close>, \<open>node->data = v\<close>.\<close>

definition set_left :: "store \<Rightarrow> nat \<Rightarrow> ptr \<Rightarrow> store option" where
  "set_left s p v = do { nd \<leftarrow> deref s p; Some (s[p := nd\<lparr>left := v\<rparr>]) }"

definition set_right :: "store \<Rightarrow> nat \<Rightarrow> ptr \<Rightarrow> store option" where
  "set_right s p v = do { nd \<leftarrow> deref s p; Some (s[p := nd\<lparr>right := v\<rparr>]) }"

definition set_data :: "store \<Rightarrow> nat \<Rightarrow> string \<Rightarrow> store option" where
  "set_data s p v = do { nd \<leftarrow> deref s p; Some (s[p := nd\<lparr>data := v\<rparr>]) }"

definition rotateRight :: "store \<Rightarrow> nat \<Rightarrow> (ptr \<times> store) option" where
  "rotateRight s y =
     do { ynd \<leftarrow> deref s y;
          x \<leftarrow> left ynd;
          xnd \<leftarrow> deref s x;
          let T2 = right xnd;
          s1 \<leftarrow> set_right s x (Some y);
          s2 \<leftarrow> set_left s1 y T2;
          s3 \<leftarrow> updateHeight s2 (Some y);
          s4 \<leftarrow> updateSize s3 (Some y);
          s5 \<leftarrow> updateHeight s4 (Some x);
          s6 \<leftarrow> updateSize s5 (Some x);
          Some (Some x, s6) }"

definition rotateLeft :: "store \<Rightarrow> nat \<Rightarrow> (ptr \<times> store) option" where
  "rotateLeft s x =
     do { xnd \<leftarrow> deref s x;
          y \<leftarrow> right xnd;
          ynd \<leftarrow> deref s y;
          let T2 = left ynd;
          s1 \<leftarrow> set_left s y (Some x);
          s2 \<leftarrow> set_right s1 x T2;
          s3 \<leftarrow> updateHeight s2 (Some x);
          s4 \<leftarrow> updateSize s3 (Some x);
          s5 \<leftarrow> updateHeight s4 (Some y);
          s6 \<leftarrow> updateSize s5 (Some y);
          Some (Some y, s6) }"

text \<open>
  \<open>balance\<close> tests its four cases in the order of the source. The balance of a child
  is read only where the source reads it: behind \<open>balance > 1\<close> or \<open>balance < -1\<close>.
\<close>

definition balance :: "store \<Rightarrow> ptr \<Rightarrow> (ptr \<times> store) option" where
  "balance s node =
     (case node of
        None \<Rightarrow> Some (node, s)
      | Some p \<Rightarrow>
          do { s1 \<leftarrow> updateHeight s node;
               s2 \<leftarrow> updateSize s1 node;
               b \<leftarrow> getBalance s2 node;
               nd \<leftarrow> deref s2 p;
               leftLeft \<leftarrow> (if b > 1 then map_option (\<lambda>bl. bl \<ge> 0) (getBalance s2 (left nd))
                            else Some False);
               if leftLeft then rotateRight s2 p
               else
                 do { rightRight \<leftarrow> (if b < - 1 then map_option (\<lambda>br. br \<le> 0) (getBalance s2 (right nd))
                                      else Some False);
                      if rightRight then rotateLeft s2 p
                      else if b > 1 then
                        do { l \<leftarrow> left nd;
                             (l', s3) \<leftarrow> rotateLeft s2 l;
                             s4 \<leftarrow> set_left s3 p l';
                             rotateRight s4 p }
                      else if b < - 1 then
                        do { r \<leftarrow> right nd;
                             (r', s3) \<leftarrow> rotateRight s2 r;
                             s4 \<leftarrow> set_right s3 p r';
                             rotateLeft s4 p }
                      else Some (node, s2) } })"

partial_function (option) insertHelper :: "store \<Rightarrow> ptr \<Rightarrow> int \<Rightarrow> string \<Rightarrow> (ptr \<times> store) option" where
  "insertHelper s node position text =
     (case node of
        None \<Rightarrow> (case make_shared s text of (p, s') \<Rightarrow> Some (Some p, s'))
      | Some p \<Rightarrow>
          do { nd \<leftarrow> deref s p;
               leftSize \<leftarrow> getSize_node s (left nd);
               s' \<leftarrow>
                 (if position \<le> leftSize then
                    do { (l', s1) \<leftarrow> insertHelper s (left nd) position text;
                         set_left s1 p l' }
                  else if position \<le> leftSize + int (length (data nd)) then
                    do { let insertPos = nat (position - leftSize);
                         let leftPart = take insertPos (data nd);
                         let rightPart = drop insertPos (data nd);
                         s1 \<leftarrow> set_data s p (leftPart @ text @ rightPart);
                         updateSize s1 node }
                  else
                    do { (r', s1) \<leftarrow> insertHelper s (right nd)
                                      (position - leftSize - int (length (data nd))) text;
                         set_right s1 p r' });
               balance s' node })"

declare insertHelper.simps [code]

text \<open>
  In \<open>eraseHelper\<close> the sum \<open>eraseStart + length\<close> wraps around when \<open>length\<close> is
  close to \<open>INT_MAX\<close>. The negative \<open>eraseEnd\<close>, converted to \<open>size_t\<close>, lies
  beyond the end of the string, and \<open>substr(eraseEnd)\<close> throws \<open>std::out_of_range\<close>.
\<close>

partial_function (option) eraseHelper :: "store \<Rightarrow> ptr \<Rightarrow> int \<Rightarrow> int \<Rightarrow> (ptr \<times> store) option" where
  "eraseHelper s node position n =
     (case node of
        None \<Rightarrow> Some (node, s)
      | Some p \<Rightarrow>
          do { nd \<leftarrow> deref s p;
               leftSize \<leftarrow> getSize_node s (left nd);
               let nodeDataLength = int (length (data nd));
               s' \<leftarrow>
                 (if position < leftSize then
                    do { (l', s1) \<leftarrow> eraseHelper s (left nd) position n;
                         set_left s1 p l' }
                  else if position < leftSize + nodeDataLength then
                    do { let eraseStart = position - leftSize;
                         let eraseEnd = min (int32 (eraseStart + n)) nodeDataLength;
                         let leftPart = take (nat eraseStart) (data nd);
                         rightPart \<leftarrow> (if eraseEnd < 0 then None else Some (drop (nat eraseEnd) (data nd)));
                         s1 \<leftarrow> set_data s p (leftPart @ rightPart);
                         s2 \<leftarrow> updateSize s1 node;
                         let remainingLength = n - (eraseEnd - eraseStart);
                         if remainingLength > 0 then
                           do { nd2 \<leftarrow> deref s2 p;
                                (r', s3) \<leftarrow> eraseHelper s2 (right nd2) 0 remainingLength;
                                set_right s3 p r' }
                         else Some s2 }
                  else
                    do { (r', s1) \<leftarrow> eraseHelper s (right nd) (position - leftSize - nodeDataLength) n;
                         set_right s1 p r' });
               balance s' node })"

declare eraseHelper.simps [code]

text \<open>
  \<open>collectText\<close> appends to \<open>result\<close> and advances \<open>currentPos\<close>, both passed by
  reference: the model returns the pair.
\<close>

partial_function (option) collectText ::
  "store \<Rightarrow> ptr \<Rightarrow> int \<Rightarrow> int \<Rightarrow> string \<Rightarrow> int \<Rightarrow> (string \<times> int) option" where
  "collectText s node start n result currentPos =
     (case node of
        None \<Rightarrow> Some (result, currentPos)
      | Some p \<Rightarrow>
          do { nd \<leftarrow> deref s p;
               (result1, currentPos1) \<leftarrow> collectText s (left nd) start n result currentPos;
               let dlen = int (length (data nd));
               let result2 =
                 (if currentPos1 < start + n \<and> currentPos1 + dlen > start then
                    let nodeStart = max 0 (start - currentPos1);
                        nodeEnd = min dlen (start + n - currentPos1)
                    in if nodeStart < nodeEnd
                       then result1 @ substr (data nd) (nat nodeStart) (nat (nodeEnd - nodeStart))
                       else result1
                  else result1);
               collectText s (right nd) start n result2 (currentPos1 + dlen) })"

declare collectText.simps [code]

text \<open>
  \<open>std::string::find(pattern, pos)\<close>: the first index at or after \<open>pos\<close> where
  \<open>pattern\<close> occurs, \<open>None\<close> for \<open>npos\<close>. The empty pattern occurs at every index up to the size.
\<close>

function str_find :: "string \<Rightarrow> string \<Rightarrow> nat \<Rightarrow> nat option" where
  "str_find d pattern pos =
     (if pos + length pattern > length d then None
      else if take (length pattern) (drop pos d) = pattern then Some pos
      else str_find d pattern (pos + 1))"
  by pat_completeness auto
termination
  by (relation "measure (\<lambda>(d, pattern, pos). length d + 1 - pos)") auto

text \<open>
  The \<open>while ((pos = data.find(pattern, pos)) != npos)\<close> loop of \<open>searchInNode\<close>. With an
  empty pattern \<open>pos\<close> never advances and the loop does not end.
\<close>

partial_function (option) find_loop :: "string \<Rightarrow> string \<Rightarrow> nat \<Rightarrow> int \<Rightarrow> int list \<Rightarrow> int list option" where
  "find_loop d pattern pos currentPos results =
     (case str_find d pattern pos of
        None \<Rightarrow> Some results
      | Some found \<Rightarrow> find_loop d pattern (found + length pattern) currentPos (results @ [currentPos + int found]))"

declare find_loop.simps [code]

partial_function (option) searchInNode ::
  "store \<Rightarrow> ptr \<Rightarrow> string \<Rightarrow> int list \<Rightarrow> int \<Rightarrow> (int list \<times> int) option" where
  "searchInNode s node pattern results currentPos =
     (case node of
        None \<Rightarrow> Some (results, currentPos)
      | Some p \<Rightarrow>
          do { nd \<leftarrow> deref s p;
               (results1, currentPos1) \<leftarrow> searchInNode s (left nd) pattern results currentPos;
               results2 \<leftarrow> find_loop (data nd) pattern 0 currentPos1 results1;
               searchInNode s (right nd) pattern results2 (currentPos1 + int (length (data nd))) })"

declare searchInNode.simps [code]

partial_function (option) validateHelper :: "store \<Rightarrow> ptr \<Rightarrow> bool option" where
  "validateHelper s node =
     (case node of
        None \<Rightarrow> Some True
      | Some p \<Rightarrow>
          do { nd \<leftarrow> deref s p;
               b \<leftarrow> getBalance s node;
               if b < - 1 \<or> b > 1 then Some False
               else
                 do { sl \<leftarrow> getSize_node s (left nd);
                      sr \<leftarrow> getSize_node s (right nd);
                      let expectedSize = int (length (data nd)) + sl + sr;
                      if nsize nd \<noteq> expectedSize then Some False
                      else
                        do { vl \<leftarrow> validateHelper s (left nd);
                             if vl then validateHelper s (right nd) else Some False } } })"

declare validateHelper.simps [code]

text \<open>The public operations of \<open>AVLTree\<close>. A \<open>std::stack\<close> is a list with its top first.\<close>

function compact :: "ptr list \<Rightarrow> ptr list \<Rightarrow> ptr list" where
  "compact undo temp =
     (if length undo > 25 then compact (tl undo) (hd undo # temp) else temp)"
  by pat_completeness auto
termination
  by (relation "measure (\<lambda>(undo, temp). length undo)") auto

declare compact.simps [simp del]

definition saveState :: "AVLTree \<Rightarrow> AVLTree" where
  "saveState t =
     (let undo1 = (if tree_root t \<noteq> None
                   then (let pushed = tree_root t # undoStack t
                         in if length pushed > 50 then compact pushed [] else pushed)
                   else undoStack t)
      in t\<lparr>undoStack := undo1, redoStack := []\<rparr>)"

definition insert :: "AVLTree \<Rightarrow> int \<Rightarrow> string \<Rightarrow> AVLTree option" where
  "insert t position text =
     (if text = [] then Some t
      else
        let t1 = saveState t in
        do { (r, s) \<leftarrow> insertHelper (heap t1) (tree_root t1) position text;
             Some (t1\<lparr>heap := s, tree_root := r\<rparr>) })"

definition erase :: "AVLTree \<Rightarrow> int \<Rightarrow> int \<Rightarrow> AVLTree option" where
  "erase t position n =
     (if n \<le> 0 then Some t
      else
        let t1 = saveState t in
        do { (r, s) \<leftarrow> eraseHelper (heap t1) (tree_root t1) position n;
             Some (t1\<lparr>heap := s, tree_root := r\<rparr>) })"

definition getText :: "AVLTree \<Rightarrow> int \<Rightarrow> int \<Rightarrow> string option" where
  "getText t start n = map_option fst (collectText (heap t) (tree_root t) start n [] 0)"

definition getSize :: "AVLTree \<Rightarrow> int option" where
  "getSize t = getSize_node (heap t) (tree_root t)"

definition undo :: "AVLTree \<Rightarrow> bool \<times> AVLTree" where
  "undo t =
     (case undoStack t of
        [] \<Rightarrow> (False, t)
      | top_ptr # rest \<Rightarrow>
          (True, t\<lparr>redoStack := tree_root t # redoStack t, tree_root := top_ptr, undoStack := rest\<rparr>))"

definition redo :: "AVLTree \<Rightarrow> bool \<times> AVLTree" where
  "redo t =
     (case redoStack t of
        [] \<Rightarrow> (False, t)
      | top_ptr # rest \<Rightarrow>
          (True, t\<lparr>undoStack := tree_root t # undoStack t, tree_root := top_ptr, redoStack := rest\<rparr>))"

definition validate :: "AVLTree \<Rightarrow> bool option" where
  "validate t = validateHelper (heap t) (tree_root t)"

definition findAll :: "AVLTree \<Rightarrow> string \<Rightarrow> int list option" where
  "findAll t pattern = map_option fst (searchInNode (heap t) (tree_root t) pattern [] 0)"

definition tree_moveCursor :: "AVLTree \<Rightarrow> int \<Rightarrow> int \<Rightarrow> int option" where
  "tree_moveCursor t currentPos off =
     do { let newPos = int32 (currentPos + off);
          totalSize \<leftarrow> getSize t;
          Some (max 0 (min newPos totalSize)) }"


text \<open>Line boundaries: \<open>rfind\<close> and \<open>find\<close> of the line break in the text before and after.\<close>

definition newline :: char where
  "newline = CHR 0x0A"

fun rfind_char :: "string \<Rightarrow> char \<Rightarrow> nat option" where
  "rfind_char [] c = None"
| "rfind_char (x # xs) c =
     (case rfind_char xs c of
        Some i \<Rightarrow> Some (Suc i)
      | None \<Rightarrow> if x = c then Some 0 else None)"

fun find_char :: "string \<Rightarrow> char \<Rightarrow> nat option" where
  "find_char [] c = None"
| "find_char (x # xs) c = (if x = c then Some 0 else map_option Suc (find_char xs c))"

definition getLineStart :: "AVLTree \<Rightarrow> int \<Rightarrow> int option" where
  "getLineStart t position =
     do { text \<leftarrow> getText t 0 position;
          Some (case rfind_char text newline of None \<Rightarrow> 0 | Some lastNewline \<Rightarrow> int lastNewline + 1) }"

definition getLineEnd :: "AVLTree \<Rightarrow> int \<Rightarrow> int option" where
  "getLineEnd t position =
     do { sz \<leftarrow> getSize t;
          text \<leftarrow> getText t position (sz - position);
          Some (case find_char text newline of None \<Rightarrow> sz | Some nextNewline \<Rightarrow> position + int nextNewline) }"

definition getLineNumber :: "AVLTree \<Rightarrow> int \<Rightarrow> int option" where
  "getLineNumber t position =
     do { text \<leftarrow> getText t 0 position; Some (int (count_list text newline) + 1) }"

definition getColumnNumber :: "AVLTree \<Rightarrow> int \<Rightarrow> int option" where
  "getColumnNumber t position = do { lineStart \<leftarrow> getLineStart t position; Some (position - lineStart) }"

definition getChar :: "AVLTree \<Rightarrow> int \<Rightarrow> char option" where
  "getChar t position =
     do { sz \<leftarrow> getSize t;
          if position < 0 \<or> position \<ge> sz then Some (CHR 0x00)
          else do { text \<leftarrow> getText t position 1;
                    Some (case text of [] \<Rightarrow> CHR 0x00 | c # cs \<Rightarrow> c) } }"

subsection \<open>Editor core (text\_editor.h, text\_editor.cpp)\<close>

text \<open>
  The session state of \<open>TextEditor\<close>, without the auto-save thread and the time stamps.
  An operation returns \<open>None\<close> when a call into the storage tree does not return.
\<close>

record Document =
  filename :: string
  title :: string
  modified :: bool
  content :: AVLTree

record TextEditor =
  documents :: "Document list"
  currentDocumentIndex :: int
  cursorPosition :: int
  selectionStart :: int
  selectionEnd :: int
  isSelecting :: bool
  clipboard :: string

definition Document_new :: "string \<Rightarrow> Document" where
  "Document_new name = \<lparr>filename = name, title = name, modified = False, content = AVLTree_new\<rparr>"

definition isValidDocumentIndex :: "TextEditor \<Rightarrow> int \<Rightarrow> bool" where
  "isValidDocumentIndex ed index = (index \<ge> 0 \<and> index < int (length (documents ed)))"

definition getCurrentDocument :: "TextEditor \<Rightarrow> Document option" where
  "getCurrentDocument ed =
     (if isValidDocumentIndex ed (currentDocumentIndex ed)
      then Some (documents ed ! nat (currentDocumentIndex ed)) else None)"

text \<open>Writing through the \<open>Document*\<close> of the current document.\<close>

definition set_current :: "TextEditor \<Rightarrow> Document \<Rightarrow> TextEditor" where
  "set_current ed doc = ed\<lparr>documents := (documents ed)[nat (currentDocumentIndex ed) := doc]\<rparr>"

definition markDocumentModified :: "TextEditor \<Rightarrow> TextEditor" where
  "markDocumentModified ed =
     (case getCurrentDocument ed of
        None \<Rightarrow> ed
      | Some doc \<Rightarrow> set_current ed (doc\<lparr>modified := True\<rparr>))"

definition hasSelection :: "TextEditor \<Rightarrow> bool" where
  "hasSelection ed = (selectionStart ed \<noteq> selectionEnd ed)"

definition clearSelection :: "TextEditor \<Rightarrow> TextEditor" where
  "clearSelection ed =
     ed\<lparr>selectionStart := cursorPosition ed, selectionEnd := cursorPosition ed, isSelecting := False\<rparr>"

definition normalizeSelection :: "TextEditor \<Rightarrow> TextEditor" where
  "normalizeSelection ed =
     (if selectionStart ed > selectionEnd ed
      then ed\<lparr>selectionStart := selectionEnd ed, selectionEnd := selectionStart ed\<rparr> else ed)"

definition ensureValidCursorPosition :: "TextEditor \<Rightarrow> TextEditor option" where
  "ensureValidCursorPosition ed =
     (case getCurrentDocument ed of
        None \<Rightarrow> Some ed
      | Some doc \<Rightarrow>
          do { sz \<leftarrow> getSize (content doc);
               Some (ed\<lparr>cursorPosition := max 0 (min (cursorPosition ed) sz)\<rparr>) })"

definition newDocument :: "TextEditor \<Rightarrow> TextEditor" where
  "newDocument ed =
     (let docs = documents ed @ [Document_new ''Untitled'']
      in clearSelection (ed\<lparr>documents := docs, currentDocumentIndex := int (length docs) - 1,
                             cursorPosition := 0\<rparr>))"

definition TextEditor_new :: TextEditor where
  "TextEditor_new =
     newDocument \<lparr>documents = [], currentDocumentIndex = 0, cursorPosition = 0, selectionStart = 0,
                  selectionEnd = 0, isSelecting = False, clipboard = []\<rparr>"

definition switchToDocument :: "TextEditor \<Rightarrow> int \<Rightarrow> TextEditor" where
  "switchToDocument ed index =
     (if isValidDocumentIndex ed index
      then clearSelection (ed\<lparr>currentDocumentIndex := index, cursorPosition := 0\<rparr>) else ed)"

definition deleteSelection :: "TextEditor \<Rightarrow> TextEditor option" where
  "deleteSelection ed =
     (if \<not> hasSelection ed then Some ed
      else
        (case getCurrentDocument ed of
           None \<Rightarrow> Some ed
         | Some doc \<Rightarrow>
             do { let n = selectionEnd ed - selectionStart ed;
                  t \<leftarrow> erase (content doc) (selectionStart ed) n;
                  let ed1 = set_current ed (doc\<lparr>content := t\<rparr>);
                  let ed2 = ed1\<lparr>cursorPosition := selectionStart ed1\<rparr>;
                  Some (markDocumentModified (clearSelection ed2)) }))"

definition insertText :: "TextEditor \<Rightarrow> string \<Rightarrow> TextEditor option" where
  "insertText ed text =
     (case getCurrentDocument ed of
        None \<Rightarrow> Some ed
      | Some doc0 \<Rightarrow>
          do { ed1 \<leftarrow> (if hasSelection ed then deleteSelection ed else Some ed);
               doc \<leftarrow> getCurrentDocument ed1;
               t \<leftarrow> insert (content doc) (cursorPosition ed1) text;
               let ed2 = set_current ed1 (doc\<lparr>content := t\<rparr>);
               let ed3 = ed2\<lparr>cursorPosition := cursorPosition ed2 + int (length text)\<rparr>;
               Some (markDocumentModified ed3) })"

definition deleteText :: "TextEditor \<Rightarrow> int \<Rightarrow> TextEditor option" where
  "deleteText ed n =
     (case getCurrentDocument ed of
        None \<Rightarrow> Some ed
      | Some doc \<Rightarrow>
          if hasSelection ed then deleteSelection ed
          else
            do { sz \<leftarrow> getSize (content doc);
                 let actualLength = min n (sz - cursorPosition ed);
                 if actualLength > 0 then
                   do { t \<leftarrow> erase (content doc) (cursorPosition ed) actualLength;
                        Some (markDocumentModified (set_current ed (doc\<lparr>content := t\<rparr>))) }
                 else Some ed })"

definition backspace :: "TextEditor \<Rightarrow> int \<Rightarrow> TextEditor option" where
  "backspace ed n =
     (case getCurrentDocument ed of
        None \<Rightarrow> Some ed
      | Some doc \<Rightarrow>
          if hasSelection ed then deleteSelection ed
          else
            let actualLength = min n (cursorPosition ed) in
            if actualLength > 0 then
              do { let ed1 = ed\<lparr>cursorPosition := cursorPosition ed - actualLength\<rparr>;
                   t \<leftarrow> erase (content doc) (cursorPosition ed1) actualLength;
                   Some (markDocumentModified (set_current ed1 (doc\<lparr>content := t\<rparr>))) }
            else Some ed)"

definition insertNewline :: "TextEditor \<Rightarrow> TextEditor option" where
  "insertNewline ed = insertText ed [newline]"

definition insertTab :: "TextEditor \<Rightarrow> TextEditor option" where
  "insertTab ed = insertText ed ''    ''"

definition moveCursor :: "TextEditor \<Rightarrow> int \<Rightarrow> TextEditor option" where
  "moveCursor ed off =
     (case getCurrentDocument ed of
        None \<Rightarrow> Some ed
      | Some doc \<Rightarrow>
          do { newPosition \<leftarrow> tree_moveCursor (content doc) (cursorPosition ed) off;
               ensureValidCursorPosition (ed\<lparr>cursorPosition := newPosition\<rparr>) })"

definition moveCursorTo :: "TextEditor \<Rightarrow> int \<Rightarrow> TextEditor option" where
  "moveCursorTo ed position =
     (case getCurrentDocument ed of
        None \<Rightarrow> Some ed
      | Some doc \<Rightarrow>
          do { sz \<leftarrow> getSize (content doc);
               ensureValidCursorPosition (ed\<lparr>cursorPosition := max 0 (min position sz)\<rparr>) })"

definition moveCursorToLineStart :: "TextEditor \<Rightarrow> TextEditor option" where
  "moveCursorToLineStart ed =
     (case getCurrentDocument ed of
        None \<Rightarrow> Some ed
      | Some doc \<Rightarrow>
          do { p \<leftarrow> getLineStart (content doc) (cursorPosition ed); Some (ed\<lparr>cursorPosition := p\<rparr>) })"

definition moveCursorToLineEnd :: "TextEditor \<Rightarrow> TextEditor option" where
  "moveCursorToLineEnd ed =
     (case getCurrentDocument ed of
        None \<Rightarrow> Some ed
      | Some doc \<Rightarrow>
          do { p \<leftarrow> getLineEnd (content doc) (cursorPosition ed); Some (ed\<lparr>cursorPosition := p\<rparr>) })"

definition moveCursorToDocumentStart :: "TextEditor \<Rightarrow> TextEditor" where
  "moveCursorToDocumentStart ed = ed\<lparr>cursorPosition := 0\<rparr>"

definition moveCursorToDocumentEnd :: "TextEditor \<Rightarrow> TextEditor option" where
  "moveCursorToDocumentEnd ed =
     (case getCurrentDocument ed of
        None \<Rightarrow> Some ed
      | Some doc \<Rightarrow> do { sz \<leftarrow> getSize (content doc); Some (ed\<lparr>cursorPosition := sz\<rparr>) })"

definition moveCursorLeft :: "TextEditor \<Rightarrow> TextEditor option" where
  "moveCursorLeft ed = (if cursorPosition ed > 0 then moveCursor ed (- 1) else Some ed)"

definition moveCursorRight :: "TextEditor \<Rightarrow> TextEditor option" where
  "moveCursorRight ed =
     (case getCurrentDocument ed of
        None \<Rightarrow> Some ed
      | Some doc \<Rightarrow>
          do { sz \<leftarrow> getSize (content doc);
               if cursorPosition ed < sz then moveCursor ed 1 else Some ed })"

definition startSelection :: "TextEditor \<Rightarrow> TextEditor" where
  "startSelection ed =
     ed\<lparr>isSelecting := True, selectionStart := cursorPosition ed, selectionEnd := cursorPosition ed\<rparr>"

definition endSelection :: "TextEditor \<Rightarrow> TextEditor" where
  "endSelection ed =
     (if isSelecting ed
      then normalizeSelection (ed\<lparr>selectionEnd := cursorPosition ed, isSelecting := False\<rparr>)
      else ed)"

definition selectLine :: "TextEditor \<Rightarrow> TextEditor option" where
  "selectLine ed =
     (case getCurrentDocument ed of
        None \<Rightarrow> Some ed
      | Some doc \<Rightarrow>
          do { a \<leftarrow> getLineStart (content doc) (cursorPosition ed);
               b \<leftarrow> getLineEnd (content doc) (cursorPosition ed);
               Some (ed\<lparr>selectionStart := a, selectionEnd := b, isSelecting := False\<rparr>) })"

definition editor_getText :: "TextEditor \<Rightarrow> string option" where
  "editor_getText ed =
     (case getCurrentDocument ed of
        None \<Rightarrow> Some []
      | Some doc \<Rightarrow> do { sz \<leftarrow> getSize (content doc); getText (content doc) 0 sz })"

definition editor_getText_range :: "TextEditor \<Rightarrow> int \<Rightarrow> int \<Rightarrow> string option" where
  "editor_getText_range ed start n =
     (case getCurrentDocument ed of
        None \<Rightarrow> Some []
      | Some doc \<Rightarrow> getText (content doc) start n)"

definition getSelectedText :: "TextEditor \<Rightarrow> string option" where
  "getSelectedText ed =
     (if \<not> hasSelection ed then Some []
      else editor_getText_range ed (selectionStart ed) (selectionEnd ed - selectionStart ed))"

definition copy :: "TextEditor \<Rightarrow> TextEditor option" where
  "copy ed =
     (if hasSelection ed then do { sel \<leftarrow> getSelectedText ed; Some (ed\<lparr>clipboard := sel\<rparr>) }
      else Some ed)"

definition cut :: "TextEditor \<Rightarrow> TextEditor option" where
  "cut ed = do { ed1 \<leftarrow> copy ed; deleteSelection ed1 }"

definition paste :: "TextEditor \<Rightarrow> TextEditor option" where
  "paste ed = (if clipboard ed \<noteq> [] then insertText ed (clipboard ed) else Some ed)"

definition editor_undo :: "TextEditor \<Rightarrow> TextEditor option" where
  "editor_undo ed =
     (case getCurrentDocument ed of
        None \<Rightarrow> Some ed
      | Some doc \<Rightarrow>
          (case undo (content doc) of
             (False, t) \<Rightarrow> Some ed
           | (True, t) \<Rightarrow>
               ensureValidCursorPosition (markDocumentModified (set_current ed (doc\<lparr>content := t\<rparr>)))))"

definition editor_redo :: "TextEditor \<Rightarrow> TextEditor option" where
  "editor_redo ed =
     (case getCurrentDocument ed of
        None \<Rightarrow> Some ed
      | Some doc \<Rightarrow>
          (case redo (content doc) of
             (False, t) \<Rightarrow> Some ed
           | (True, t) \<Rightarrow>
               ensureValidCursorPosition (markDocumentModified (set_current ed (doc\<lparr>content := t\<rparr>)))))"

definition closeDocument :: "TextEditor \<Rightarrow> int \<Rightarrow> TextEditor" where
  "closeDocument ed index =
     (if \<not> isValidDocumentIndex ed index then ed
      else
        let docs = take (nat index) (documents ed) @ drop (nat index + 1) (documents ed);
            ed1 = ed\<lparr>documents := docs\<rparr>;
            ed2 = (if currentDocumentIndex ed1 \<ge> int (length docs)
                   then ed1\<lparr>currentDocumentIndex := max 0 (int (length docs) - 1)\<rparr> else ed1);
            ed3 = (if docs = [] then newDocument ed2 else ed2)
        in clearSelection (ed3\<lparr>cursorPosition := 0\<rparr>))"

definition getLineCount :: "TextEditor \<Rightarrow> int option" where
  "getLineCount ed =
     (case getCurrentDocument ed of
        None \<Rightarrow> Some 0
      | Some doc \<Rightarrow> do { text \<leftarrow> editor_getText ed; Some (int (count_list text newline) + 1) })"

definition getCurrentLine :: "TextEditor \<Rightarrow> int option" where
  "getCurrentLine ed =
     (case getCurrentDocument ed of
        None \<Rightarrow> Some 1
      | Some doc \<Rightarrow> getLineNumber (content doc) (cursorPosition ed))"

definition getCurrentColumn :: "TextEditor \<Rightarrow> int option" where
  "getCurrentColumn ed =
     (case getCurrentDocument ed of
        None \<Rightarrow> Some 1
      | Some doc \<Rightarrow> map_option (\<lambda>c. c + 1) (getColumnNumber (content doc) (cursorPosition ed)))"

text \<open>
  \<open>moveCursorToLine\<close>, \<open>moveCursorUp\<close> and \<open>moveCursorDown\<close> call each other:
  moving to a line steps up or down once per line (the request \<open>Times\<close> is the
  \<open>for\<close> loop with what is left of its count), and a step up or down first moves to
  the neighbouring line through \<open>moveCursorToLine\<close>. One function takes the request.
  The line difference and its negation are 32-bit values.
\<close>

datatype nav = ToLine int | Up | Down | Times nat nav

partial_function (option) navigate :: "nav \<Rightarrow> TextEditor \<Rightarrow> TextEditor option" where
  "navigate req ed =
     (case getCurrentDocument ed of
        None \<Rightarrow> Some ed
      | Some doc \<Rightarrow>
          (case req of
             ToLine line \<Rightarrow>
               do { currentLine \<leftarrow> getCurrentLine ed;
                    let lineDiff = int32 (line - currentLine);
                    if lineDiff > 0 then navigate (Times (nat lineDiff) Down) ed
                    else if lineDiff < 0 then navigate (Times (nat (int32 (- lineDiff))) Up) ed
                    else Some ed }
           | Times k step \<Rightarrow>
               (if k = 0 then Some ed
                else navigate step ed \<bind> navigate (Times (k - 1) step))
           | Up \<Rightarrow>
               do { currentLine \<leftarrow> getCurrentLine ed;
                    currentColumn \<leftarrow> getCurrentColumn ed;
                    if currentLine > 1 then
                      do { ed1 \<leftarrow> navigate (ToLine (currentLine - 1)) ed;
                           doc1 \<leftarrow> getCurrentDocument ed1;
                           newLineStart \<leftarrow> getLineStart (content doc1) (cursorPosition ed1);
                           newLineEnd \<leftarrow> getLineEnd (content doc1) (cursorPosition ed1);
                           let maxColumn = newLineEnd - newLineStart;
                           moveCursorTo ed1 (newLineStart + min currentColumn maxColumn) }
                    else Some ed }
           | Down \<Rightarrow>
               do { currentLine \<leftarrow> getCurrentLine ed;
                    currentColumn \<leftarrow> getCurrentColumn ed;
                    totalLines \<leftarrow> getLineCount ed;
                    if currentLine < totalLines then
                      do { ed1 \<leftarrow> navigate (ToLine (currentLine + 1)) ed;
                           doc1 \<leftarrow> getCurrentDocument ed1;
                           newLineStart \<leftarrow> getLineStart (content doc1) (cursorPosition ed1);
                           newLineEnd \<leftarrow> getLineEnd (content doc1) (cursorPosition ed1);
                           let maxColumn = newLineEnd - newLineStart;
                           moveCursorTo ed1 (newLineStart + min currentColumn maxColumn) }
                    else Some ed }))"

declare navigate.simps [code]

definition moveCursorToLine :: "TextEditor \<Rightarrow> int \<Rightarrow> TextEditor option" where
  "moveCursorToLine ed line = navigate (ToLine line) ed"

definition moveCursorUp :: "TextEditor \<Rightarrow> TextEditor option" where
  "moveCursorUp ed = navigate Up ed"

definition moveCursorDown :: "TextEditor \<Rightarrow> TextEditor option" where
  "moveCursorDown ed = navigate Down ed"

text \<open>The two loops of \<open>selectWord\<close>; \<open>std::isalnum\<close> in the "C" locale.\<close>

definition is_word_char :: "char \<Rightarrow> bool" where
  "is_word_char c = (isalnum c \<or> c = CHR ''_'')"

function word_start :: "AVLTree \<Rightarrow> int \<Rightarrow> int option" where
  "word_start t start =
     (if start > 0 then
        (case getChar t (start - 1) of
           None \<Rightarrow> None
         | Some c \<Rightarrow> if \<not> is_word_char c then Some start else word_start t (start - 1))
      else Some start)"
  by pat_completeness auto
termination
  by (relation "measure (\<lambda>(t, start). nat start)") auto

declare word_start.simps [simp del]

function word_end :: "AVLTree \<Rightarrow> int \<Rightarrow> int \<Rightarrow> int option" where
  "word_end t sz e =
     (if e < sz then
        (case getChar t e of
           None \<Rightarrow> None
         | Some c \<Rightarrow> if \<not> is_word_char c then Some e else word_end t sz (e + 1))
      else Some e)"
  by pat_completeness auto
termination
  by (relation "measure (\<lambda>(t, sz, e). nat (sz - e))") auto

declare word_end.simps [simp del]

definition selectWord :: "TextEditor \<Rightarrow> TextEditor option" where
  "selectWord ed =
     (case getCurrentDocument ed of
        None \<Rightarrow> Some ed
      | Some doc \<Rightarrow>
          do { a \<leftarrow> word_start (content doc) (cursorPosition ed);
               sz \<leftarrow> getSize (content doc);
               b \<leftarrow> word_end (content doc) sz (cursorPosition ed);
               Some (ed\<lparr>selectionStart := a, selectionEnd := b, isSelecting := False\<rparr>) })"

text \<open>\<open>::tolower\<close> in the "C" locale.\<close>

definition tolower :: "char \<Rightarrow> char" where
  "tolower c = (if isupper c then char_of (of_char c + (32::nat)) else c)"

text \<open>The filter loop of \<open>findText\<close> over the positions the tree reported.\<close>

fun filter_matches :: "AVLTree \<Rightarrow> string \<Rightarrow> string \<Rightarrow> int list \<Rightarrow> int list \<Rightarrow> int list option" where
  "filter_matches t pattern searchPattern [] filteredResults = Some filteredResults"
| "filter_matches t pattern searchPattern (pos # results) filteredResults =
     do { text \<leftarrow> getText t pos (int (length pattern));
          filter_matches t pattern searchPattern results
            (if map tolower text = searchPattern then filteredResults @ [pos] else filteredResults) }"

definition findText :: "TextEditor \<Rightarrow> string \<Rightarrow> bool \<Rightarrow> int list option" where
  "findText ed pattern caseSensitive =
     (case getCurrentDocument ed of
        None \<Rightarrow> Some []
      | Some doc \<Rightarrow>
          do { let searchPattern = (if \<not> caseSensitive then map tolower pattern else pattern);
               results \<leftarrow> findAll (content doc) pattern;
               if \<not> caseSensitive then filter_matches (content doc) pattern searchPattern results []
               else Some results })"


subsection \<open>Operation sequences\<close>

text \<open>
  Sequences of public operations on a storage tree and on an editor, run from left to
  right; a sequence stops with \<open>None\<close> when one operation does not return.
\<close>

datatype tree_op = Insert int string | Erase int int | Undo | Redo | SaveState

fun tree_apply :: "tree_op \<Rightarrow> AVLTree \<Rightarrow> AVLTree option" where
  "tree_apply (Insert position text) t = insert t position text"
| "tree_apply (Erase position n) t = erase t position n"
| "tree_apply Undo t = Some (snd (undo t))"
| "tree_apply Redo t = Some (snd (redo t))"
| "tree_apply SaveState t = Some (saveState t)"

fun tree_run :: "tree_op list \<Rightarrow> AVLTree \<Rightarrow> AVLTree option" where
  "tree_run [] t = Some t"
| "tree_run (x # xs) t = tree_apply x t \<bind> tree_run xs"

text \<open>\<open>getText(0, getSize())\<close>.\<close>

definition tree_text :: "AVLTree \<Rightarrow> string option" where
  "tree_text t = do { n \<leftarrow> getSize t; getText t 0 n }"

text \<open>
  The reference flat string of the round-trip property: the same edits as splices of a
  list of characters.
\<close>

fun ref_apply :: "tree_op \<Rightarrow> string \<Rightarrow> string" where
  "ref_apply (Insert position text) str = take (nat position) str @ text @ drop (nat position) str"
| "ref_apply (Erase position n) str = take (nat position) str @ drop (nat position + nat n) str"
| "ref_apply x str = str"

definition ref_run :: "tree_op list \<Rightarrow> string \<Rightarrow> string" where
  "ref_run xs str = fold ref_apply xs str"

datatype editor_op =
    InsertText string | DeleteText int | Backspace int | InsertNewline | InsertTab
  | MoveCursor int | MoveCursorTo int | MoveCursorToLineStart | MoveCursorToLineEnd
  | MoveCursorToDocumentStart | MoveCursorToDocumentEnd | MoveCursorLeft | MoveCursorRight
  | StartSelection | EndSelection | ClearSelection | SelectLine
  | Copy | Cut | Paste | EditorUndo | EditorRedo | DeleteSelection
  | NewDocument | SwitchToDocument int | CloseDocument int
  | MoveCursorToLine int | MoveCursorUp | MoveCursorDown | SelectWord

fun editor_apply :: "editor_op \<Rightarrow> TextEditor \<Rightarrow> TextEditor option" where
  "editor_apply (InsertText text) ed = insertText ed text"
| "editor_apply (DeleteText n) ed = deleteText ed n"
| "editor_apply (Backspace n) ed = backspace ed n"
| "editor_apply InsertNewline ed = insertNewline ed"
| "editor_apply InsertTab ed = insertTab ed"
| "editor_apply (MoveCursor off) ed = moveCursor ed off"
| "editor_apply (MoveCursorTo position) ed = moveCursorTo ed position"
| "editor_apply MoveCursorToLineStart ed = moveCursorToLineStart ed"
| "editor_apply MoveCursorToLineEnd ed = moveCursorToLineEnd ed"
| "editor_apply MoveCursorToDocumentStart ed = Some (moveCursorToDocumentStart ed)"
| "editor_apply MoveCursorToDocumentEnd ed = moveCursorToDocumentEnd ed"
| "editor_apply MoveCursorLeft ed = moveCursorLeft ed"
| "editor_apply MoveCursorRight ed = moveCursorRight ed"
| "editor_apply StartSelection ed = Some (startSelection ed)"
| "editor_apply EndSelection ed = Some (endSelection ed)"
| "editor_apply ClearSelection ed = Some (clearSelection ed)"
| "editor_apply SelectLine ed = selectLine ed"
| "editor_apply Copy ed = copy ed"
| "editor_apply Cut ed = cut ed"
| "editor_apply Paste ed = paste ed"
| "editor_apply EditorUndo ed = editor_undo ed"
| "editor_apply EditorRedo ed = editor_redo ed"
| "editor_apply DeleteSelection ed = deleteSelection ed"
| "editor_apply NewDocument ed = Some (newDocument ed)"
| "editor_apply (SwitchToDocument index) ed = Some (switchToDocument ed index)"
| "editor_apply (CloseDocument index) ed = Some (closeDocument ed index)"
| "editor_apply (MoveCursorToLine line) ed = moveCursorToLine ed line"
| "editor_apply MoveCursorUp ed = moveCursorUp ed"
| "editor_apply MoveCursorDown ed = moveCursorDown ed"
| "editor_apply SelectWord ed = selectWord ed"

fun editor_run :: "editor_op list \<Rightarrow> TextEditor \<Rightarrow> TextEditor option" where
  "editor_run [] ed = Some ed"
| "editor_run (x # xs) ed = editor_apply x ed \<bind> editor_run xs"

text \<open>The size of the current document, \<open>getCurrentDocument()->content->getSize()\<close>.\<close>

definition current_size :: "TextEditor \<Rightarrow> int option" where
  "current_size ed = do { doc \<leftarrow> getCurrentDocument ed; getSize (content doc) }"


subsection \<open>Concrete inputs\<close>

text \<open>A fresh Huffman engine, a client that never connected, and requests that fail.\<close>

definition huffman_new :: HuffmanCompression where
  "huffman_new = \<lparr>frequencyTable = [], huffmanCodes = Map.empty, hroot = None\<rparr>"

definition offline_client :: NLPClient where
  "offline_client = \<lparr>baseUrl = ''http://localhost:8000'', connected = False\<rparr>"

definition failing_grammar_request :: "string \<Rightarrow> string \<Rightarrow> bool \<Rightarrow> exn + GrammarResponse" where
  "failing_grammar_request text language autoCorrect = Inl (StdException ''cURL request failed'')"

definition failing_sentiment_request :: "string \<Rightarrow> string \<Rightarrow> exn + SentimentResponse" where
  "failing_sentiment_request text granularity = Inl (StdException ''cURL request failed'')"

definition failing_correct_request :: "string \<Rightarrow> string \<Rightarrow> exn + string" where
  "failing_correct_request text language = Inl (StdException ''cURL request failed'')"

text \<open>The editor after typing "Hello hello" into its first document.\<close>

definition hello_editor :: TextEditor where
  "hello_editor =
     \<lparr>documents = [\<lparr>filename = ''Untitled'', title = ''Untitled'', modified = True,
        content = \<lparr>heap = [\<lparr>data = ''Hello hello'', height = 1, nsize = 11, left = None, right = None\<rparr>],
                   tree_root = Some 0, undoStack = [], redoStack = []\<rparr>\<rparr>],
      currentDocumentIndex = 0, cursorPosition = 11, selectionStart = 0, selectionEnd = 0,
      isSelecting = False, clipboard = []\<rparr>"

text \<open>
  The editor after typing "abc", "d" and "e" and undoing once: both history stacks hold
  a pointer (to the one node of the tree).
\<close>

definition history_editor :: TextEditor where
  "history_editor =
     \<lparr>documents = [\<lparr>filename = ''Untitled'', title = ''Untitled'', modified = True,
        content = \<lparr>heap = [\<lparr>data = ''abcde'', height = 1, nsize = 5, left = None, right = None\<rparr>],
                   tree_root = Some 0, undoStack = [Some 0], redoStack = [Some 0]\<rparr>\<rparr>],
      currentDocumentIndex = 0, cursorPosition = 5, selectionStart = 0, selectionEnd = 0,
      isSelecting = False, clipboard = []\<rparr>"

subsection \<open>The tree a pointer reaches\<close>

text \<open>
  For the proofs about the read-only traversals: \<open>tree_at s p t\<close> holds when following
  the child pointers from \<open>p\<close> in the store \<open>s\<close> unfolds to the finite tree \<open>t\<close>.
  \<open>flatten\<close> is its text in order; \<open>overlap d start n cur\<close> is the part of a text
  \<open>d\<close> that begins at offset \<open>cur\<close> and falls into the window \<open>[start, start + n)\<close>;
  \<open>occurs_at txt pattern base pos\<close> says that \<open>pattern\<close> stands at offset \<open>pos\<close>
  of a text that begins at offset \<open>base\<close>.
\<close>

datatype shape = Tip | Fork shape AVLNode shape

inductive tree_at :: "store \<Rightarrow> ptr \<Rightarrow> shape \<Rightarrow> bool" where
  tree_at_null: "tree_at s None Tip"
| tree_at_node: "deref s p = Some nd \<Longrightarrow> tree_at s (left nd) l \<Longrightarrow> tree_at s (right nd) r
                 \<Longrightarrow> tree_at s (Some p) (Fork l nd r)"

fun flatten :: "shape \<Rightarrow> string" where
  "flatten Tip = []"
| "flatten (Fork l nd r) = flatten l @ data nd @ flatten r"

definition overlap :: "string \<Rightarrow> int \<Rightarrow> int \<Rightarrow> int \<Rightarrow> string" where
  "overlap d start n cur = take (nat (start + n - cur) - nat (start - cur)) (drop (nat (start - cur)) d)"

definition occurs_at :: "string \<Rightarrow> string \<Rightarrow> int \<Rightarrow> int \<Rightarrow> bool" where
  "occurs_at txt pattern base pos =
     (base \<le> pos \<and> pos - base + int (length pattern) \<le> int (length txt)
      \<and> take (length pattern) (drop (nat (pos - base)) txt) = pattern)"

subsection \<open>The session-state invariant\<close>




text \<open>
  The requests on which the mutual recursion of the line navigation goes round: a step
  up below the first line, a step down above the last line, and the moves and repeated
  steps that lead to them.
\<close>

definition stuck :: "nav \<Rightarrow> TextEditor \<Rightarrow> bool" where
  "stuck req ed =
     (case (getCurrentDocument ed, getCurrentLine ed, getLineCount ed) of
        (Some doc, Some currentLine, Some totalLines) \<Rightarrow>
          (currentLine > 1 \<and>
             (case req of Up \<Rightarrow> True
                        | ToLine line \<Rightarrow> int32 (line - currentLine) < 0
                                            \<and> int32 (- int32 (line - currentLine)) > 0
                        | Times k step \<Rightarrow> k > 0 \<and> step = Up | Down \<Rightarrow> False))
          \<or> (currentLine < totalLines \<and>
             (case req of Down \<Rightarrow> True | ToLine line \<Rightarrow> int32 (line - currentLine) > 0
                        | Times k step \<Rightarrow> k > 0 \<and> step = Down | Up \<Rightarrow> False))
      | _ \<Rightarrow> False)"


subsection \<open>The history stacks\<close>

text \<open>
  What every tree reached from a fresh one satisfies: a null root comes with empty
  history stacks, and no stack holds a null pointer.
\<close>

definition history_inv :: "AVLTree \<Rightarrow> bool" where
  "history_inv t =
     ((tree_root t = None \<longrightarrow> undoStack t = [] \<and> redoStack t = [])
      \<and> None \<notin> set (undoStack t) \<and> None \<notin> set (redoStack t))"


section \<open>Theorems\<close>

subsection \<open>Machine integers\<close>

lemma int32_id: "- 2147483648 \<le> v \<Longrightarrow> v < 2147483648 \<Longrightarrow> int32 v = v"
  by (simp add: int32_def)

lemma int32_range: "- 2147483648 \<le> int32 v \<and> int32 v < 2147483648"
  unfolding int32_def using pos_mod_bound[of 4294967296 "v + 2147483648"]
    pos_mod_sign[of 4294967296 "v + 2147483648"] by linarith


subsection \<open>Storage tree: undo, redo and the edit round trip\<close>

lemma compact_subset: "set (compact u temp) \<subseteq> set u \<union> set temp"
proof (induction u temp rule: compact.induct)
  case (1 u temp)
  show ?case
  proof (cases "length u > 25")
    case True
    then have "u \<noteq> []" by auto
    then have "set (tl u) \<union> set (hd u # temp) \<subseteq> set u \<union> set temp"
      by (cases u) auto
    with 1 True show ?thesis by (subst compact.simps) auto
  next
    case False
    then show ?thesis by (subst compact.simps) auto
  qed
qed

lemma rotate_nonnull:
  "rotateRight s p = Some (r, s') \<Longrightarrow> r \<noteq> None"
  "rotateLeft s p = Some (r, s') \<Longrightarrow> r \<noteq> None"
  by (auto simp: rotateRight_def rotateLeft_def Let_def bind_eq_Some_conv)

lemma balance_nonnull: "balance s (Some p) = Some (r, s') \<Longrightarrow> r \<noteq> None"
  unfolding balance_def
  by (auto simp: bind_eq_Some_conv dest: rotate_nonnull split: if_splits)

lemma insertHelper_nonnull: "insertHelper s node position text = Some (r, s') \<Longrightarrow> r \<noteq> None"
proof (cases node)
  case None
  assume "insertHelper s node position text = Some (r, s')"
  with None show ?thesis by (subst (asm) insertHelper.simps) (auto simp: make_shared_def)
next
  case (Some p)
  assume "insertHelper s node position text = Some (r, s')"
  with Some have "\<exists>s''. balance s'' (Some p) = Some (r, s')"
    by (subst (asm) insertHelper.simps) (simp add: bind_eq_Some_conv, blast)
  with balance_nonnull show ?thesis by blast
qed

lemma eraseHelper_nonnull: "eraseHelper s (Some p) position n = Some (r, s') \<Longrightarrow> r \<noteq> None"
proof -
  assume "eraseHelper s (Some p) position n = Some (r, s')"
  then have "\<exists>s''. balance s'' (Some p) = Some (r, s')"
    by (subst (asm) eraseHelper.simps) (simp add: bind_eq_Some_conv Let_def, blast)
  with balance_nonnull show ?thesis by blast
qed


lemma saveState_inv: "history_inv t \<Longrightarrow> history_inv (saveState t)"
  using compact_subset[of "tree_root t # undoStack t" "[]"]
  by (auto simp: history_inv_def saveState_def Let_def)

lemma saveState_root [simp]: "tree_root (saveState t) = tree_root t" "heap (saveState t) = heap t"
  by (simp_all add: saveState_def Let_def)

lemma tree_apply_inv:
  assumes "history_inv t" and "tree_apply x t = Some t'"
  shows "history_inv t'"
proof (cases x)
  case (Insert position str)
  show ?thesis
  proof (cases "str = []")
    case True
    with assms Insert show ?thesis by (simp add: insert_def)
  next
    case False
    with assms(2) Insert obtain r s where
      h: "insertHelper (heap t) (tree_root t) position str = Some (r, s)"
      and t': "t' = (saveState t)\<lparr>heap := s, tree_root := r\<rparr>"
      by (auto simp: insert_def Let_def split: bind_splits)
    from insertHelper_nonnull[OF h] saveState_inv[OF assms(1)] t'
    show ?thesis by (auto simp: history_inv_def)
  qed
next
  case (Erase position n)
  show ?thesis
  proof (cases "n \<le> 0")
    case True
    with assms Erase show ?thesis by (simp add: erase_def)
  next
    case False
    with assms(2) Erase obtain r s where
      h: "eraseHelper (heap t) (tree_root t) position n = Some (r, s)"
      and t': "t' = (saveState t)\<lparr>heap := s, tree_root := r\<rparr>"
      by (auto simp: erase_def Let_def split: bind_splits)
    show ?thesis
    proof (cases "tree_root t")
      case None
      with h have "r = None" by (subst (asm) eraseHelper.simps) simp
      with None assms(1) t' show ?thesis by (auto simp: history_inv_def saveState_def)
    next
      case (Some p)
      with eraseHelper_nonnull h have "r \<noteq> None" by metis
      with saveState_inv[OF assms(1)] t' show ?thesis by (auto simp: history_inv_def)
    qed
  qed
next
  case Undo
  with assms show ?thesis
    by (cases "undoStack t") (auto simp: undo_def history_inv_def)
next
  case Redo
  with assms show ?thesis
    by (cases "redoStack t") (auto simp: redo_def history_inv_def)
next
  case SaveState
  with assms show ?thesis by (auto dest: saveState_inv)
qed

lemma tree_run_inv: "history_inv t \<Longrightarrow> tree_run xs t = Some t' \<Longrightarrow> history_inv t'"
proof (induction xs arbitrary: t)
  case Nil
  then show ?case by simp
next
  case (Cons x xs)
  then show ?case by (auto split: bind_splits dest: tree_apply_inv)
qed

lemma reachable_inv: "tree_run xs AVLTree_new = Some t \<Longrightarrow> history_inv t"
  by (rule tree_run_inv[of AVLTree_new]) (simp_all add: history_inv_def AVLTree_new_def)

text \<open>
  Claim C10. \<open>saveState\<close> pushes a snapshot only when the root is not null. Take any
  tree reached from a fresh one by inserts, erases, undos, redos and \<open>saveState\<close> calls
  whose root is null (an empty storage tree). After one insert of a non-empty text the
  insert has returned, the tree holds a node with the text, the undo stack is empty, and
  \<open>undo\<close> returns \<open>false\<close> and leaves the tree as it is: the empty state before the
  insert cannot be restored.
\<close>

theorem undo_after_first_insert:
  assumes "tree_run xs AVLTree_new = Some t" and "tree_root t = None" and "text \<noteq> []"
  shows "\<exists>t'. insert t position text = Some t'
            \<and> undoStack t' = []
            \<and> tree_root t' \<noteq> None
            \<and> getSize t' = Some (int (length text))
            \<and> undo t' = (False, t')"
proof -
  from reachable_inv[OF assms(1)] assms(2) have "undoStack t = []" by (simp add: history_inv_def)
  with assms(2,3) show ?thesis
  by (simp add: insert_def saveState_def insertHelper.simps make_shared_def undo_def
      getSize_def getSize_node_def deref_def)
qed

theorem undo_after_first_insert_witness:
  "\<exists>t'. insert AVLTree_new 0 ''Hello'' = Some t' \<and> undoStack t' = [] \<and> tree_root t' \<noteq> None
        \<and> getSize t' = Some 5 \<and> undo t' = (False, t')"
proof -
  have "tree_run [] AVLTree_new = Some AVLTree_new" by simp
  from undo_after_first_insert [OF this, of "''Hello''" 0]
  show ?thesis by (simp add: AVLTree_new_def)
qed


text \<open>
  Claim C1 (undo after an insert restores the size and content before the insert). The
  code does not: \<open>saveState\<close> pushes the pointer to the root node, and the insert then
  changes that very node. With "Hello" in the tree, inserting " World" at 5 and undoing
  leaves size 11 and the text "Hello World", not size 5 and "Hello".
\<close>

theorem undo_keeps_inserted_text:
  "(tree_run [Insert 0 ''Hello''] AVLTree_new \<bind> tree_text) = Some ''Hello''
   \<and> (tree_run [Insert 0 ''Hello''] AVLTree_new \<bind> getSize) = Some 5
   \<and> (tree_run [Insert 0 ''Hello'', Insert 5 '' World'', Undo] AVLTree_new \<bind> tree_text)
       = Some ''Hello World''
   \<and> (tree_run [Insert 0 ''Hello'', Insert 5 '' World'', Undo] AVLTree_new \<bind> getSize) = Some 11
   \<and> (tree_run [Insert 0 ''Hello'', Insert 5 '' World'', Undo, Redo] AVLTree_new \<bind> tree_text)
       = Some ''Hello World''
   \<and> (tree_run [Insert 0 ''Hello'', SaveState, Insert 5 '' World'', Undo] AVLTree_new \<bind> tree_text)
       = Some ''Hello World''"
  by code_simp

text \<open>
  Claim C2 (after any sequence of inserts and erases at valid offsets the text equals the
  reference flat string, and \<open>validate\<close> holds). The code does not: an erase that starts
  in a left subtree stops at the end of that subtree. With "a" in the left child and "b"
  in the root, erasing 2 characters at 0 leaves "b"; the reference string is empty.
\<close>

theorem erase_stops_at_subtree_end:
  "(tree_run [Insert 0 ''b'', Insert 0 ''a''] AVLTree_new \<bind> tree_text) = Some ''ab''
   \<and> (tree_run [Insert 0 ''b'', Insert 0 ''a'', Erase 0 2] AVLTree_new \<bind> tree_text) = Some ''b''
   \<and> ref_run [Insert 0 ''b'', Insert 0 ''a'', Erase 0 2] [] = []
   \<and> (tree_run [Insert 0 ''b'', Insert 0 ''a'', Erase 0 2] AVLTree_new \<bind> validate) = Some True"
  by code_simp

subsection \<open>Search algorithms\<close>

text \<open>
  Claim C3 (the three searches agree on every text and pattern). They agree on "AA" in
  "AAAAA", but not in general: after a mismatch \<open>boyerMooreSearch\<close> always shifts by the
  pattern length, since the good-suffix table holds the pattern length everywhere. It
  misses "World" in "Hello World Hello", which the other two find at 6.
\<close>

theorem boyer_moore_misses_match:
  "kmpSearch ''AAAAA'' ''AA'' = Some [0, 1, 2, 3]
   \<and> boyerMooreSearch ''AAAAA'' ''AA'' = Some [0, 1, 2, 3]
   \<and> rabinKarpSearch ''AAAAA'' ''AA'' = Some [0, 1, 2, 3]
   \<and> kmpSearch ''Hello World Hello'' ''World'' = Some [6]
   \<and> rabinKarpSearch ''Hello World Hello'' ''World'' = Some [6]
   \<and> boyerMooreSearch ''Hello World Hello'' ''World'' = Some []"
  by code_simp

subsection \<open>Compression\<close>

text \<open>
  Claim C4 (decompressing a compressed text gives the text back, for both codecs). The
  code does not. Huffman: the padding bits of the last byte are decoded as symbols, so
  "aab" comes back as "aabbbbbb" (the two frequencies differ, so the tree does not depend
  on how the library orders equal entries); and with a single distinct character the
  tree is one leaf, from which the decoder steps to a null pointer and on from there.
  LZ77: a match that reaches the end of the text takes the string's terminating NUL as
  its next character, so "aa" comes back as "aa" followed by a NUL character.
\<close>

theorem compression_round_trip_fails:
  "fst (huffman_compress huffman_new ''aab'') = [0xFF, 0xC0]
   \<and> huffman_decompress (snd (huffman_compress huffman_new ''aab''))
        (fst (huffman_compress huffman_new ''aab'')) = Some ''aabbbbbb''
   \<and> fst (huffman_compress huffman_new ''a'') = [0xFF, 0x00]
   \<and> huffman_decompress (snd (huffman_compress huffman_new ''a''))
        (fst (huffman_compress huffman_new ''a'')) = None
   \<and> lz77_compress lz77_default ''aa'' = Some [0, 0, 0, 97, 0, 1, 1, 0]
   \<and> (lz77_compress lz77_default ''aa'' \<bind> lz77_decompress lz77_default)
        = Some [CHR ''a'', CHR ''a'', CHR 0x00]"
  by code_simp

subsection \<open>Password strength\<close>

lemma classify_spec:
  "classify p (a, b, c, d) =
     (a \<or> (\<exists>x\<in>set p. islower x), b \<or> (\<exists>x\<in>set p. isupper x),
      c \<or> (\<exists>x\<in>set p. isdigit x), d \<or> (\<exists>x\<in>set p. \<not> isalnum x))"
proof (induction p arbitrary: a b c d)
  case Nil
  then show ?case by simp
next
  case (Cons x p)
  have disj: "islower x \<Longrightarrow> \<not> isupper x" "islower x \<Longrightarrow> \<not> isdigit x" "isupper x \<Longrightarrow> \<not> isdigit x"
    by (auto simp: islower_def isupper_def isdigit_def Let_def)
  show ?case
    using disj by (auto simp: Cons.IH isalnum_def)
qed

text \<open>
  Claim C7. The score of \<open>checkPasswordStrength\<close> is one point each for length at
  least 8, 12 and 16 and one point each for a lowercase letter, an uppercase letter, a
  digit and a character that is not alphanumeric; it lies in 0..7; \<open>isStrong\<close> holds
  exactly when the score is at least 6; four lowercase characters are not strong; sixteen
  characters with all four classes score 7 and are strong.
\<close>

theorem password_strength_score:
  "score (checkPasswordStrength p) =
     (if length p \<ge> 8 then 1 else 0) + (if length p \<ge> 12 then 1 else 0)
     + (if length p \<ge> 16 then 1 else 0)
     + (if \<exists>c\<in>set p. islower c then 1 else 0) + (if \<exists>c\<in>set p. isupper c then 1 else 0)
     + (if \<exists>c\<in>set p. isdigit c then 1 else 0) + (if \<exists>c\<in>set p. \<not> isalnum c then 1 else 0)
   \<and> 0 \<le> score (checkPasswordStrength p) \<and> score (checkPasswordStrength p) \<le> 7
   \<and> isStrong (checkPasswordStrength p) = (score (checkPasswordStrength p) \<ge> 6)
   \<and> (length p = 4 \<and> (\<forall>c\<in>set p. islower c) \<longrightarrow> \<not> isStrong (checkPasswordStrength p))
   \<and> (length p = 16 \<and> (\<exists>c\<in>set p. islower c) \<and> (\<exists>c\<in>set p. isupper c)
        \<and> (\<exists>c\<in>set p. isdigit c) \<and> (\<exists>c\<in>set p. \<not> isalnum c)
      \<longrightarrow> score (checkPasswordStrength p) = 7 \<and> isStrong (checkPasswordStrength p))"
  unfolding checkPasswordStrength_def Let_def classify_spec
  by (auto simp: isalnum_def)

theorem password_strength_score_witness:
  "\<not> isStrong (checkPasswordStrength ''abcd'')
   \<and> score (checkPasswordStrength ''Abcdefgh1234567!'') = 7
   \<and> isStrong (checkPasswordStrength ''Abcdefgh1234567!'')"
proof -
  have weak: "length ''abcd'' = 4 \<and> (\<forall>c\<in>set ''abcd''. islower c)"
    by (simp add: islower_def)
  have strong: "length ''Abcdefgh1234567!'' = 16
      \<and> (\<exists>c\<in>set ''Abcdefgh1234567!''. islower c) \<and> (\<exists>c\<in>set ''Abcdefgh1234567!''. isupper c)
      \<and> (\<exists>c\<in>set ''Abcdefgh1234567!''. isdigit c) \<and> (\<exists>c\<in>set ''Abcdefgh1234567!''. \<not> isalnum c)"
    by (simp add: islower_def isupper_def isdigit_def isalnum_def)
  show ?thesis
    using password_strength_score [of "''abcd''"] password_strength_score [of "''Abcdefgh1234567!''"]
      weak strong
    by blast
qed

subsection \<open>NLP client\<close>

text \<open>
  Claim C8 as stated (\<open>checkGrammar\<close> returns the input text unchanged when the client is
  not connected) fails: the guard returns an empty response, whose corrected text is the
  empty string.
\<close>

theorem checkGrammar_offline_counterexample:
  "checkGrammar offline_client failing_grammar_request ''teh cat'' ''en'' False
     = Inr \<lparr>corrected_text = [], errors = [], suggestions = []\<rparr>
   \<and> corrected_text \<lparr>corrected_text = [], errors = [], suggestions = []\<rparr> \<noteq> ''teh cat''"
  by (simp add: checkGrammar_def offline_client_def)

text \<open>
  Claim C8, amended. When the client is not connected, for every input text
  \<open>checkGrammar\<close> returns the empty response (empty corrected text, no errors, no
  suggestions), \<open>correctGrammar\<close> returns the input text unchanged, and
  \<open>analyzeSentiment\<close> returns the sentiment "neutral" with confidence 0.5; each call
  returns, none throws.
\<close>

theorem nlp_offline_defaults:
  assumes "\<not> connected client"
  shows "checkGrammar client grammarRequest text language autoCorrect
           = Inr \<lparr>corrected_text = [], errors = [], suggestions = []\<rparr>
       \<and> correctGrammar client correctRequest text language = Inr text
       \<and> analyzeSentiment client sentimentRequest text granularity
           = Inr \<lparr>sentiment = ''neutral'', confidence = 0.5, scores = [], breakdown = []\<rparr>"
  using assms by (simp add: checkGrammar_def correctGrammar_def analyzeSentiment_def)

theorem nlp_offline_defaults_witness:
  "checkGrammar offline_client failing_grammar_request ''teh cat'' ''en'' False
           = Inr \<lparr>corrected_text = [], errors = [], suggestions = []\<rparr>
   \<and> correctGrammar offline_client failing_correct_request ''teh cat'' ''en'' = Inr ''teh cat''
   \<and> analyzeSentiment offline_client failing_sentiment_request ''teh cat'' ''sentence''
           = Inr \<lparr>sentiment = ''neutral'', confidence = 0.5, scores = [], breakdown = []\<rparr>"
  using nlp_offline_defaults [of offline_client failing_grammar_request "''teh cat''" "''en''" False
      failing_correct_request failing_sentiment_request "''sentence''"]
  by (simp add: offline_client_def)

subsection \<open>Editor core\<close>


text \<open>
  Claim C6 (with an active selection \<open>insertText\<close> deletes the selected range, inserts the
  text at the selection start and leaves the cursor behind it). The cursor is right, the
  document is not when the selection crosses the end of a left subtree: with "a" in the
  left child and "b" in the root, replacing the selection [0, 2) by "X" leaves "Xb".
\<close>

theorem insertText_leaves_selected_text:
  "(editor_run [InsertText ''b'', MoveCursorTo 0, InsertText ''a'', MoveCursorTo 0, StartSelection,
                MoveCursorTo 2, EndSelection] TextEditor_new \<bind> editor_getText) = Some ''ab''
   \<and> map_option selectionStart
        (editor_run [InsertText ''b'', MoveCursorTo 0, InsertText ''a'', MoveCursorTo 0, StartSelection,
                MoveCursorTo 2, EndSelection] TextEditor_new) = Some 0
   \<and> map_option selectionEnd
        (editor_run [InsertText ''b'', MoveCursorTo 0, InsertText ''a'', MoveCursorTo 0, StartSelection,
                MoveCursorTo 2, EndSelection] TextEditor_new) = Some 2
   \<and> (editor_run [InsertText ''b'', MoveCursorTo 0, InsertText ''a'', MoveCursorTo 0, StartSelection,
                MoveCursorTo 2, EndSelection, InsertText ''X''] TextEditor_new \<bind> editor_getText) = Some ''Xb''
   \<and> map_option cursorPosition
        (editor_run [InsertText ''b'', MoveCursorTo 0, InsertText ''a'', MoveCursorTo 0, StartSelection,
                MoveCursorTo 2, EndSelection, InsertText ''X''] TextEditor_new) = Some 1"
  by code_simp


text \<open>
  Whatever the erase removed, \<open>insertText\<close> with a selection leaves the cursor at the
  selection start plus the length of the text, and no selection.
\<close>

lemma insertText_cursor_after_selection:
  assumes "hasSelection ed" and "insertText ed text = Some ed'"
    and "getCurrentDocument ed = Some doc"
  shows "cursorPosition ed' = selectionStart ed + int (length text) \<and> \<not> hasSelection ed'"
proof -
  from assms obtain ed1 where d: "deleteSelection ed = Some ed1" and
    i: "insertText ed text = (do { doc1 \<leftarrow> getCurrentDocument ed1;
          t \<leftarrow> insert (content doc1) (cursorPosition ed1) text;
          let ed2 = set_current ed1 (doc1\<lparr>content := t\<rparr>);
          let ed3 = ed2\<lparr>cursorPosition := cursorPosition ed2 + int (length text)\<rparr>;
          Some (markDocumentModified ed3) })"
    by (auto simp: insertText_def split: bind_splits)
  from d assms(1,3) have c: "cursorPosition ed1 = selectionStart ed"
    "selectionStart ed1 = selectionStart ed" "selectionEnd ed1 = selectionStart ed"
    by (auto simp: deleteSelection_def markDocumentModified_def clearSelection_def set_current_def
        getCurrentDocument_def Let_def split: if_splits option.splits bind_splits)
  from i assms(2) c show ?thesis
    by (auto simp: markDocumentModified_def set_current_def getCurrentDocument_def Let_def
        hasSelection_def split: if_splits option.splits bind_splits)
qed

text \<open>
  The cursor can leave the document too: after an undo has made the text shorter, the
  selection [2, 3) made before it is stale, and \<open>deleteSelection\<close> puts the cursor at its
  start, 2, in a document of size 1.
\<close>

lemma cursor_leaves_document:
  "(editor_run [InsertText ''c'', MoveCursorTo 0, InsertText ''b'', MoveCursorTo 0, InsertText ''a'',
       MoveCursorTo 2, StartSelection, MoveCursorTo 3, EndSelection, EditorUndo, DeleteSelection]
      TextEditor_new \<bind> current_size) = Some 1
   \<and> map_option cursorPosition
        (editor_run [InsertText ''c'', MoveCursorTo 0, InsertText ''b'', MoveCursorTo 0, InsertText ''a'',
           MoveCursorTo 2, StartSelection, MoveCursorTo 3, EndSelection, EditorUndo, DeleteSelection]
          TextEditor_new) = Some 2"
  by code_simp

subsection \<open>Reading the tree: text retrieval and literal search\<close>

lemma overlap_append:
  "overlap (a @ b) start n cur = overlap a start n cur @ overlap b start n (cur + int (length a))"
proof -
  have i: "nat (start - (cur + int (length a))) = nat (start - cur) - length a" by linarith
  have j: "nat (start + n - (cur + int (length a))) = nat (start + n - cur) - length a" by linarith
  show ?thesis
    unfolding overlap_def i j
    by (simp add: take_append drop_append) (smt (verit) diff_diff_cancel diff_is_0_eq' nat_le_linear diff_commute diff_diff_left add.commute le_add_diff_inverse diff_zero take_eq_Nil)
qed

lemma collectText_tree:
  "tree_at s node t \<Longrightarrow>
     collectText s node start n result cur
       = Some (result @ overlap (flatten t) start n cur, cur + int (length (flatten t)))"
proof (induction arbitrary: result cur rule: tree_at.induct)
  case (tree_at_null s)
  show ?case by (simp add: collectText.simps overlap_def)
next
  case (tree_at_node s p nd l r)
  have mid: "(if cur1 < start + n \<and> cur1 + int (length (data nd)) > start then
                 let nodeStart = max 0 (start - cur1);
                     nodeEnd = min (int (length (data nd))) (start + n - cur1)
                 in if nodeStart < nodeEnd
                    then res1 @ substr (data nd) (nat nodeStart) (nat (nodeEnd - nodeStart))
                    else res1
               else res1) = res1 @ overlap (data nd) start n cur1" for cur1 res1
    by (auto simp: overlap_def substr_def Let_def min_def max_def nat_diff_distrib' intro!: arg_cong2[where f=take] )
  show ?case
    apply (subst collectText.simps)
    apply (simp add: tree_at_node.hyps tree_at_node.IH Let_def mid del: )
    apply (simp add: overlap_append add.assoc)
    done
qed

lemma str_find_Some:
  "str_find d pattern pos = Some found \<Longrightarrow>
     pos \<le> found \<and> found + length pattern \<le> length d \<and> take (length pattern) (drop found d) = pattern"
proof (induction d pattern pos rule: str_find.induct)
  case (1 d pattern pos)
  show ?case
  proof (cases "pos + length pattern > length d")
    case True
    with "1.prems" show ?thesis by simp
  next
    case False
    show ?thesis
    proof (cases "take (length pattern) (drop pos d) = pattern")
      case True
      with False "1.prems" show ?thesis by simp
    next
      case ne: False
      with False "1.prems" have "str_find d pattern (pos + 1) = Some found" by simp
      with "1.IH" False ne show ?thesis by fastforce
    qed
  qed
qed

lemmas find_loop_induct = find_loop.raw_induct[rotated 1, consumes 1, case_names step]
lemmas searchInNode_induct = searchInNode.raw_induct[rotated 1, consumes 1, case_names step]

lemma find_loop_Some:
  "find_loop d pattern pos cur results = Some results' \<Longrightarrow>
     \<exists>new. results' = results @ new \<and> (\<forall>x\<in>set new. occurs_at d pattern cur x)"
proof (induction d pattern pos cur results results' rule: find_loop_induct)
  case (step find_loop d pattern pos currentPos results da)
  note 1 = step.IH step.hyps
  show ?case
  proof (cases "str_find d pattern pos")
    case None
    with 1(2) show ?thesis by simp
  next
    case (Some found)
    with 1(2) have "find_loop d pattern (found + length pattern) currentPos (results @ [currentPos + int found]) = Some da"
      by simp
    from 1(1)[OF this] obtain new where new: "da = (results @ [currentPos + int found]) @ new"
      "\<forall>x\<in>set new. occurs_at d pattern currentPos x" by blast
    have "occurs_at d pattern currentPos (currentPos + int found)"
      using str_find_Some[OF Some] by (simp add: occurs_at_def)
    with new show ?thesis by (intro exI[of _ "(currentPos + int found) # new"]) simp
  qed
qed

lemma occurs_at_embed:
  assumes "occurs_at d pattern (cur + int (length pre)) x"
  shows "occurs_at (pre @ d @ post) pattern cur x"
proof -
  from assms have b: "cur + int (length pre) \<le> x"
    and l: "x - (cur + int (length pre)) + int (length pattern) \<le> int (length d)"
    and t: "take (length pattern) (drop (nat (x - (cur + int (length pre)))) d) = pattern"
    by (auto simp: occurs_at_def)
  define k where "k = nat (x - (cur + int (length pre)))"
  have k: "nat (x - cur) = length pre + k" using b by (simp add: k_def nat_add_distrib nat_diff_distrib')
  have kl: "k + length pattern \<le> length d" using l b unfolding k_def by linarith
  have "take (length pattern) (drop (nat (x - cur)) (pre @ d @ post)) = take (length pattern) (drop k d @ post)"
    using kl by (simp add: k)
  also have "\<dots> = take (length pattern) (drop k d)" using kl by simp
  also have "\<dots> = pattern" using t by (simp add: k_def)
  finally show ?thesis using b l by (auto simp: occurs_at_def)
qed

lemma searchInNode_tree:
  "tree_at s node t \<Longrightarrow> searchInNode s node pattern results cur = Some (results', cur') \<Longrightarrow>
     cur' = cur + int (length (flatten t))
     \<and> (\<exists>new. results' = results @ new \<and> (\<forall>x\<in>set new. occurs_at (flatten t) pattern cur x))"
proof (induction arbitrary: results cur results' cur' rule: tree_at.induct)
  case (tree_at_null s)
  then show ?case by (simp add: searchInNode.simps)
next
  case (tree_at_node s p nd l r)
  from tree_at_node.prems tree_at_node.hyps(1)
  obtain r1 c1 r2 where
    L: "searchInNode s (left nd) pattern results cur = Some (r1, c1)" and
    M: "find_loop (data nd) pattern 0 c1 r1 = Some r2" and
    R: "searchInNode s (right nd) pattern r2 (c1 + int (length (data nd))) = Some (results', cur')"
    by (subst (asm) searchInNode.simps) (auto split: bind_splits)
  from tree_at_node.IH(1)[OF L] obtain n1 where
    c1: "c1 = cur + int (length (flatten l))" and n1: "r1 = results @ n1"
    "\<forall>x\<in>set n1. occurs_at (flatten l) pattern cur x" by blast
  from find_loop_Some[OF M] obtain n2 where n2: "r2 = r1 @ n2"
    "\<forall>x\<in>set n2. occurs_at (data nd) pattern c1 x" by blast
  from tree_at_node.IH(2)[OF R] obtain n3 where
    c3: "cur' = c1 + int (length (data nd)) + int (length (flatten r))" and n3: "results' = r2 @ n3"
    "\<forall>x\<in>set n3. occurs_at (flatten r) pattern (c1 + int (length (data nd))) x" by blast
  have a1: "\<forall>x\<in>set n1. occurs_at (flatten (Fork l nd r)) pattern cur x"
    using n1(2) occurs_at_embed[of "flatten l" pattern cur "[]" _ "data nd @ flatten r"] by simp
  have a2: "\<forall>x\<in>set n2. occurs_at (flatten (Fork l nd r)) pattern cur x"
    using n2(2) occurs_at_embed[of "data nd" pattern cur "flatten l" _ "flatten r"] by (simp add: c1)
  have a3: "\<forall>x\<in>set n3. occurs_at (flatten (Fork l nd r)) pattern cur x"
    using n3(2) occurs_at_embed[of "flatten r" pattern cur "flatten l @ data nd" _ "[]"]
    by (simp add: c1 add.assoc)
  show ?case
    using c1 c3 n1(1) n2(1) n3(1) a1 a2 a3
    by (intro conjI exI[of _ "n1 @ n2 @ n3"]) auto
qed

lemma searchInNode_tree_at:
  "searchInNode s node pattern results cur = Some y \<Longrightarrow> \<exists>t. tree_at s node t"
proof (induction s node pattern results cur y rule: searchInNode_induct)
  case (step searchInNode s node pattern results currentPos sa)
  note 1 = step.IH step.hyps
  show ?case
  proof (cases node)
    case None
    then show ?thesis by (auto intro: tree_at.intros)
  next
    case (Some p)
    with 1(2) obtain nd y1 r2 where nd: "deref s p = Some nd"
      and L: "searchInNode s (left nd) pattern results currentPos = Some y1"
      and R: "searchInNode s (right nd) pattern r2 (snd y1 + int (length (data nd))) = Some sa"
      by (auto split: bind_splits prod.splits)
    from 1(1)[OF L] 1(1)[OF R] nd Some show ?thesis by (auto intro: tree_at.intros)
  qed
qed

lemma find_loop_terminates:
  "pattern \<noteq> [] \<Longrightarrow> \<exists>results'. find_loop d pattern pos cur results = Some results'"
proof (induction "length d + 1 - pos" arbitrary: pos results rule: less_induct)
  case less
  show ?case
  proof (cases "str_find d pattern pos")
    case None
    then show ?thesis by (subst find_loop.simps) simp
  next
    case (Some found)
    from str_find_Some[OF Some] less.prems
    have "length d + 1 - (found + length pattern) < length d + 1 - pos"
      by (cases pattern) auto
    from less.hyps[OF this less.prems] Some show ?thesis
      by (subst find_loop.simps) simp
  qed
qed

lemma searchInNode_terminates:
  "tree_at s node t \<Longrightarrow> pattern \<noteq> [] \<Longrightarrow>
     \<exists>y. searchInNode s node pattern results cur = Some y"
proof (induction arbitrary: results cur rule: tree_at.induct)
  case (tree_at_null s)
  show ?case by (simp add: searchInNode.simps)
next
  case (tree_at_node s p nd l r)
  from tree_at_node.IH(1)[OF tree_at_node.prems] obtain r1 c1 where
    L: "searchInNode s (left nd) pattern results cur = Some (r1, c1)" by fastforce
  from find_loop_terminates[OF tree_at_node.prems] obtain r2 where
    M: "find_loop (data nd) pattern 0 c1 r1 = Some r2" by blast
  from tree_at_node.IH(2)[OF tree_at_node.prems] obtain y where
    R: "searchInNode s (right nd) pattern r2 (c1 + int (length (data nd))) = Some y" by blast
  show ?case
    by (subst searchInNode.simps) (simp add: tree_at_node.hyps L M R)
qed

lemma getText_occurrence:
  assumes "tree_at (heap t) (tree_root t) sh" and "occurs_at (flatten sh) pattern 0 x"
  shows "getText t x (int (length pattern)) = Some pattern"
proof -
  from assms(2) have x: "0 \<le> x" and t: "take (length pattern) (drop (nat x) (flatten sh)) = pattern"
    by (auto simp: occurs_at_def)
  have "nat (x + int (length pattern)) - nat x = length pattern" using x by linarith
  then show ?thesis
    using collectText_tree[OF assms(1), of x "int (length pattern)" "[]" 0] t
    by (simp add: getText_def overlap_def)
qed

lemma filter_matches_all:
  "\<forall>x\<in>set results. getText t x (int (length pattern)) = Some pattern \<Longrightarrow>
     filter_matches t pattern (map tolower pattern) results filtered = Some (filtered @ results)"
  by (induction results arbitrary: filtered) auto

lemma findAll_occurrences:
  assumes "findAll t pattern = Some results"
  shows "\<forall>x\<in>set results. getText t x (int (length pattern)) = Some pattern"
proof -
  from assms obtain cur' where S: "searchInNode (heap t) (tree_root t) pattern [] 0 = Some (results, cur')"
    by (auto simp: findAll_def)
  from searchInNode_tree_at[OF S] obtain sh where sh: "tree_at (heap t) (tree_root t) sh" by blast
  from searchInNode_tree[OF sh S] have "\<forall>x\<in>set results. occurs_at (flatten sh) pattern 0 x" by auto
  with getText_occurrence[OF sh] show ?thesis by blast
qed


text \<open>
  Claim C9. For every editor state and every pattern, \<open>findText\<close> with
  \<open>caseSensitive = false\<close> gives exactly what it gives with \<open>caseSensitive = true\<close>:
  the positions come from the tree's case-sensitive literal search, and the filter keeps
  each of them, since the text at a reported position is the pattern itself. (Both calls
  fail to return in the same cases.) And the call does return a result for every
  non-empty pattern when the pointers of the current document's tree unfold to a finite
  tree.
\<close>

theorem findText_case_insensitive_same:
  "findText ed pattern False = findText ed pattern True
   \<and> (pattern \<noteq> [] \<and> (\<exists>doc sh. getCurrentDocument ed = Some doc
          \<and> tree_at (heap (content doc)) (tree_root (content doc)) sh)
        \<longrightarrow> (\<exists>results. findText ed pattern True = Some results))"
proof (intro conjI impI)
  show "findText ed pattern False = findText ed pattern True"
  proof (cases "getCurrentDocument ed")
    case None
    then show ?thesis by (simp add: findText_def)
  next
    case (Some doc)
    show ?thesis
    proof (cases "findAll (content doc) pattern")
      case None
      with Some show ?thesis by (simp add: findText_def)
    next
      case (Some results)
      from filter_matches_all[OF findAll_occurrences[OF Some], of "[]"] Some \<open>getCurrentDocument ed = Some doc\<close>
      show ?thesis by (simp add: findText_def)
    qed
  qed
next
  assume "pattern \<noteq> [] \<and> (\<exists>doc sh. getCurrentDocument ed = Some doc
          \<and> tree_at (heap (content doc)) (tree_root (content doc)) sh)"
  then obtain doc sh where ne: "pattern \<noteq> []" and doc: "getCurrentDocument ed = Some doc"
    and sh: "tree_at (heap (content doc)) (tree_root (content doc)) sh" by blast
  from searchInNode_terminates[OF sh ne, of "[]" 0] doc
  show "\<exists>results. findText ed pattern True = Some results"
    by (auto simp: findText_def findAll_def)
qed


lemma hello_editor_reached: "editor_run [InsertText ''Hello hello''] TextEditor_new = Some hello_editor"
  unfolding hello_editor_def by code_simp

theorem findText_case_insensitive_same_witness:
  "findText hello_editor ''hello'' False = findText hello_editor ''hello'' True
   \<and> (\<exists>results. findText hello_editor ''hello'' True = Some results)
   \<and> findText hello_editor ''hello'' False = Some [6]"
proof -
  let ?nd = "\<lparr>data = ''Hello hello'', height = 1, nsize = 11, left = None, right = None\<rparr>"
  let ?doc = "\<lparr>filename = ''Untitled'', title = ''Untitled'', modified = True,
        content = \<lparr>heap = [?nd], tree_root = Some 0, undoStack = [], redoStack = []\<rparr>\<rparr>"
  have doc: "getCurrentDocument hello_editor = Some ?doc"
    by (simp add: hello_editor_def getCurrentDocument_def isValidDocumentIndex_def)
  have "tree_at [?nd] (Some 0) (Fork Tip ?nd Tip)"
    by (rule tree_at.intros) (simp_all add: deref_def tree_at.intros)
  then have sh: "tree_at (heap (content ?doc)) (tree_root (content ?doc)) (Fork Tip ?nd Tip)"
    by simp
  have ne: "''hello'' \<noteq> []" by simp
  have ev: "findText hello_editor ''hello'' False = Some [6]"
    unfolding hello_editor_def by code_simp
  from findText_case_insensitive_same [of hello_editor "''hello''"] doc sh ne ev
  show ?thesis by blast
qed

subsection \<open>Editor session state\<close>











lemmas navigate_induct = navigate.raw_induct[rotated 1, consumes 1, case_names step]








text \<open>
  \<open>moveCursorUp\<close> calls \<open>moveCursorToLine\<close> for the line above before it moves the
  cursor, \<open>moveCursorToLine\<close> finds the cursor one line too low and calls
  \<open>moveCursorUp\<close>: whenever there is a line to move to, the three operations do not
  return.
\<close>

lemma navigate_not_stuck: "navigate req ed = Some ed' \<Longrightarrow> \<not> stuck req ed"
proof (induction req ed ed' rule: navigate_induct)
  case (step navigate req ed ed')
  show ?case
  proof
    assume st: "stuck req ed"
    then obtain doc l n where doc: "getCurrentDocument ed = Some doc"
      and l: "getCurrentLine ed = Some l" and n: "getLineCount ed = Some n"
      by (auto simp: stuck_def split: option.splits)
    have none: "navigate r ed = None" if "stuck r ed" for r
      using step.IH[of r ed] that by (cases "navigate r ed") auto
    show False
    proof (cases req)
      case (ToLine line)
      define d where "d = int32 (line - l)"
      with st ToLine doc l n have "l > 1 \<and> d < 0 \<and> int32 (- d) > 0 \<or> l < n \<and> d > 0"
        by (auto simp: stuck_def)
      then have "d < 0 \<and> stuck (Times (nat (int32 (- d))) Up) ed
          \<or> d > 0 \<and> stuck (Times (nat d) Down) ed"
        using doc l n by (auto simp: stuck_def)
      with none step.hyps ToLine doc l show False
        by (auto simp: Let_def d_def)
    next
      case Up
      with st doc l n have "l > 1" by (auto simp: stuck_def)
      then have "stuck (ToLine (l - 1)) ed" using doc l n by (auto simp: stuck_def int32_def)
      from none[OF this] step.hyps Up doc l \<open>l > 1\<close> show False
        by (auto split: bind_splits)
    next
      case Down
      with st doc l n have "l < n" by (auto simp: stuck_def)
      then have "stuck (ToLine (l + 1)) ed" using doc l n by (auto simp: stuck_def int32_def)
      from none[OF this] step.hyps Down doc l n \<open>l < n\<close> show False
        by (auto split: bind_splits)
    next
      case (Times k st')
      with st doc l n have "k > 0 \<and> stuck st' ed" by (auto simp: stuck_def)
      with none step.hyps Times doc show False by auto
    qed
  qed
qed

lemma line_navigation_never_returns:
  assumes "getCurrentDocument ed = Some doc" and "getCurrentLine ed = Some currentLine"
    and "getLineCount ed = Some totalLines"
  shows "currentLine > 1 \<Longrightarrow> moveCursorUp ed = None"
    and "currentLine < totalLines \<Longrightarrow> moveCursorDown ed = None"
    and "currentLine > 1 \<Longrightarrow> line < currentLine \<Longrightarrow> - 2147483648 < line - currentLine
           \<Longrightarrow> moveCursorToLine ed line = None"
    and "currentLine < totalLines \<Longrightarrow> line > currentLine \<Longrightarrow> line - currentLine < 2147483648
           \<Longrightarrow> moveCursorToLine ed line = None"
proof -
  have none: "navigate r ed = None" if "stuck r ed" for r
    using navigate_not_stuck[of r ed] that by (cases "navigate r ed") auto
  show "currentLine > 1 \<Longrightarrow> moveCursorUp ed = None"
    using assms by (auto simp: moveCursorUp_def stuck_def intro!: none)
  show "currentLine < totalLines \<Longrightarrow> moveCursorDown ed = None"
    using assms by (auto simp: moveCursorDown_def stuck_def intro!: none)
  show "currentLine > 1 \<Longrightarrow> line < currentLine \<Longrightarrow> - 2147483648 < line - currentLine
          \<Longrightarrow> moveCursorToLine ed line = None"
    using assms by (auto simp: moveCursorToLine_def stuck_def int32_id intro!: none)
  show "currentLine < totalLines \<Longrightarrow> line > currentLine \<Longrightarrow> line - currentLine < 2147483648
          \<Longrightarrow> moveCursorToLine ed line = None"
    using assms by (auto simp: moveCursorToLine_def stuck_def int32_id intro!: none)
qed










lemma history_editor_reached:
  "editor_run [InsertText ''abc'', InsertText ''d'', InsertText ''e'', EditorUndo] TextEditor_new
     = Some history_editor"
  unfolding history_editor_def by code_simp




end
